theory Spec2Isabelle
  imports Main "HOL-Library.Word"
begin

unbundle bit_operations_syntax

section \<open>Wire constants and values of the Go runtime\<close>

type_synonym byte = "8 word"

text \<open>
  The packet type byte \<open>fxp\<close>. server.go only compares it with the named constants of
  its dispatch switch, so the type is the enumeration of those constants;
  \<open>ssh_FXP_unlisted b\<close> stands for every type byte that is none of them (the reply types
  and the unassigned bytes).
\<close>

datatype fxp =
    ssh_FXP_INIT | ssh_FXP_OPEN | ssh_FXP_CLOSE | ssh_FXP_READ | ssh_FXP_WRITE
  | ssh_FXP_LSTAT | ssh_FXP_FSTAT | ssh_FXP_SETSTAT | ssh_FXP_FSETSTAT
  | ssh_FXP_OPENDIR | ssh_FXP_READDIR | ssh_FXP_REMOVE | ssh_FXP_MKDIR
  | ssh_FXP_RMDIR | ssh_FXP_REALPATH | ssh_FXP_STAT | ssh_FXP_RENAME
  | ssh_FXP_READLINK | ssh_FXP_SYMLINK | ssh_FXP_EXTENDED
  | ssh_FXP_unlisted byte

text \<open>
  The status codes. The comment inside \<open>statusFromError\<close> lists the first nine; server.go
  also names \<open>ssh_FX_INVALID_FILENAME\<close> and \<open>ssh_FX_NO_SUCH_PATH\<close>. Their numbers are
  declared outside server.go and the code never computes with them.
\<close>

datatype fx =
    ssh_FX_OK | ssh_FX_EOF | ssh_FX_NO_SUCH_FILE | ssh_FX_PERMISSION_DENIED
  | ssh_FX_FAILURE | ssh_FX_BAD_MESSAGE | ssh_FX_NO_CONNECTION
  | ssh_FX_CONNECTION_LOST | ssh_FX_OP_UNSUPPORTED
  | ssh_FX_INVALID_FILENAME | ssh_FX_NO_SUCH_PATH

text \<open>
  Modelled from the spec: the open flags \<open>ssh_FXF_*\<close> (bits of \<open>Pflags\<close>) are declared
  outside server.go. The spec has the numeric assignments be those of the wire protocol,
  and the protocol draft that server.go names (draft-ietf-secsh-filexfer-02) gives these.
\<close>

definition ssh_FXF_READ :: "32 word" where "ssh_FXF_READ = 1"
definition ssh_FXF_WRITE :: "32 word" where "ssh_FXF_WRITE = 2"
definition ssh_FXF_APPEND :: "32 word" where "ssh_FXF_APPEND = 4"

text \<open>
  Modelled from the spec: the attribute flags \<open>ssh_FILEXFER_ATTR_*\<close> are declared outside
  server.go; the values are those of the same protocol draft.
\<close>

definition ssh_FILEXFER_ATTR_SIZE :: "32 word" where "ssh_FILEXFER_ATTR_SIZE = 1"
definition ssh_FILEXFER_ATTR_UIDGID :: "32 word" where "ssh_FILEXFER_ATTR_UIDGID = 2"
definition ssh_FILEXFER_ATTR_PERMISSIONS :: "32 word" where "ssh_FILEXFER_ATTR_PERMISSIONS = 4"
definition ssh_FILEXFER_ATTR_ACMODTIME :: "32 word" where "ssh_FILEXFER_ATTR_ACMODTIME = 8"

text \<open>
  Go errors, as far as server.go tells them apart: the sentinel \<open>io.EOF\<close>, a
  \<open>syscall.Errno\<close> (a number), an \<open>*os.PathError\<close> (operation, path, wrapped error), and
  the errors of github.com/pkg/errors (\<open>errors.New\<close>/\<open>errors.Errorf\<close> carry a text,
  \<open>errors.Wrap\<close> an error and a message). A nil error is \<open>None\<close> of
  \<open>go_error option\<close>.
\<close>

datatype go_error =
    io_EOF
  | Errno nat
  | PathError string string go_error
  | errors_New string
  | errors_Wrap go_error string

text \<open>The numbers of the \<open>syscall\<close> constants that server.go names (Linux).\<close>

definition EPERM :: nat where "EPERM = 1"
definition ENOENT :: nat where "ENOENT = 2"
definition EBADF :: nat where "EBADF = 9"
definition EFBIG :: nat where "EFBIG = 27"

text \<open>
  The method \<open>Error()\<close>. The text of a \<open>syscall.Errno\<close> comes from the table of the
  \<open>syscall\<close> package, the parameter \<open>tbl\<close>.
\<close>

fun Error :: "(nat \<Rightarrow> string) \<Rightarrow> go_error \<Rightarrow> string" where
  "Error tbl io_EOF = ''EOF''"
| "Error tbl (Errno n) = tbl n"
| "Error tbl (PathError opn path e) = opn @ '' '' @ path @ '': '' @ Error tbl e"
| "Error tbl (errors_New s) = s"
| "Error tbl (errors_Wrap e m) = m @ '': '' @ Error tbl e"

subsection \<open>The functions of package strings that server.go calls\<close>

definition strings_HasPrefix :: "string \<Rightarrow> string \<Rightarrow> bool" where
  "strings_HasPrefix s pre = (length pre \<le> length s \<and> take (length pre) s = pre)"

definition strings_ContainsRune :: "string \<Rightarrow> char \<Rightarrow> bool" where
  "strings_ContainsRune s r = (r \<in> set s)"

fun strings_Index :: "string \<Rightarrow> string \<Rightarrow> int" where
  "strings_Index [] sep = (if sep = [] then 0 else - 1)"
| "strings_Index (c # cs) sep =
     (if strings_HasPrefix (c # cs) sep then 0
      else (let i = strings_Index cs sep in if i = - 1 then - 1 else i + 1))"

text \<open>The slice expressions \<open>s[i:]\<close> and \<open>s[:i]\<close>: out of range they panic (\<open>None\<close>).\<close>

definition slice_from :: "string \<Rightarrow> nat \<Rightarrow> string option" where
  "slice_from s i = (if i \<le> length s then Some (drop i s) else None)"

definition slice_to :: "string \<Rightarrow> nat \<Rightarrow> string option" where
  "slice_to s i = (if i \<le> length s then Some (take i s) else None)"

text \<open>\<open>strconv.Itoa\<close>: the decimal numeral of an integer.\<close>

fun digits :: "nat \<Rightarrow> string" where
  "digits n =
     (if n < 10 then [''0123456789'' ! n]
      else digits (n div 10) @ [''0123456789'' ! (n mod 10)])"

definition strconv_Itoa :: "int \<Rightarrow> string" where
  "strconv_Itoa i = (if i < 0 then CHR ''-'' # digits (nat (- i)) else digits (nat i))"

section \<open>Packets\<close>

text \<open>
  The decoded request packets. Their structs are declared outside server.go; the fields
  are those server.go reads. \<open>Attrs\<close> of setstat and fsetstat is the undecoded rest of
  the packet, and \<open>SpecificPacket\<close> of the extended packet is known to server.go only
  through its method \<open>readonly()\<close>.
\<close>

datatype packet =
    sshFxInitPacket
  | sshFxpLstatPacket (ID: "32 word") (Path: string)
  | sshFxpOpenPacket (ID: "32 word") (Path: string) (Pflags: "32 word") (Flags: "32 word")
  | sshFxpClosePacket (ID: "32 word") (Handle: string)
  | sshFxpReadPacket (ID: "32 word") (Handle: string) (Offset: "64 word") (Len: "32 word")
  | sshFxpWritePacket (ID: "32 word") (Handle: string) (Offset: "64 word") (Data: "byte list")
  | sshFxpFstatPacket (ID: "32 word") (Handle: string)
  | sshFxpSetstatPacket (ID: "32 word") (Path: string) (Flags: "32 word") (Attrs: "byte list")
  | sshFxpFsetstatPacket (ID: "32 word") (Handle: string) (Flags: "32 word") (Attrs: "byte list")
  | sshFxpOpendirPacket (ID: "32 word") (Path: string)
  | sshFxpReaddirPacket (ID: "32 word") (Handle: string)
  | sshFxpRemovePacket (ID: "32 word") (Filename: string)
  | sshFxpMkdirPacket (ID: "32 word") (Path: string) (Flags: "32 word")
  | sshFxpRmdirPacket (ID: "32 word") (Path: string)
  | sshFxpRealpathPacket (ID: "32 word") (Path: string)
  | sshFxpStatPacket (ID: "32 word") (Path: string)
  | sshFxpRenamePacket (ID: "32 word") (Oldpath: string) (Newpath: string)
  | sshFxpReadlinkPacket (ID: "32 word") (Path: string)
  | sshFxpSymlinkPacket (ID: "32 word") (Targetpath: string) (Linkpath: string)
  | sshFxpExtendedPacket (ID: "32 word") (SpecificPacket_readonly: bool)

text \<open>
  Modelled from the spec: the method \<open>id()\<close> of the packets other than init is declared
  outside server.go; the spec has every response carry the ID of the requesting packet.
  For the init packet server.go declares it: that packet has no ID, and the method
  returns 0.
\<close>

fun pkt_id :: "packet \<Rightarrow> 32 word" where
  "pkt_id sshFxInitPacket = 0"
| "pkt_id p = ID p"

text \<open>\<open>os.FileInfo\<close>, with the fields the server sets in its synthetic entries.\<close>

record FileInfo =
  fileInfo_name :: string
  fileInfo_mode :: "32 word"
  fileInfo_mtime :: int

text \<open>\<open>os.ModeDir | 0755\<close>: bit 31 and the permission bits.\<close>

definition ModeDir_0755 :: "32 word" where
  "ModeDir_0755 = push_bit 31 1 OR 493"

datatype attrs = emptyFileStat | FileInfoAttrs FileInfo

record sshFxpNameAttr =
  Name :: string
  LongName :: string
  NameAttr_Attrs :: attrs

record sshFxpStatusPacket =
  status_ID :: "32 word"
  Code :: fx
  msg :: string

text \<open>The packets the server sends.\<close>

datatype response =
    sshFxVersionPacket nat
  | sshFxpStatResponse "32 word" FileInfo
  | sshFxpNamePacket "32 word" "sshFxpNameAttr list"
  | sshFxpHandlePacket "32 word" string
  | sshFxpDataPacket "32 word" "32 word" "byte list"
  | StatusPacket sshFxpStatusPacket

section \<open>The error translator\<close>

definition translateErrno :: "nat \<Rightarrow> fx" where
  "translateErrno errno =
     (if errno = 0 then ssh_FX_OK
      else if errno = ENOENT then ssh_FX_NO_SUCH_FILE
      else if errno = EPERM then ssh_FX_PERMISSION_DENIED
      else ssh_FX_FAILURE)"

definition statusFromError :: "(nat \<Rightarrow> string) \<Rightarrow> packet \<Rightarrow> go_error option \<Rightarrow> sshFxpStatusPacket" where
  "statusFromError tbl p err =
     (let ret = \<lparr>status_ID = pkt_id p, Code = ssh_FX_OK, msg = []\<rparr> in
      case err of
        None \<Rightarrow> ret
      | Some e \<Rightarrow>
          (let ret = ret\<lparr>Code := ssh_FX_FAILURE, msg := Error tbl e\<rparr> in
           case e of
             io_EOF \<Rightarrow> ret\<lparr>Code := ssh_FX_EOF\<rparr>
           | Errno errno \<Rightarrow> ret\<lparr>Code := translateErrno errno\<rparr>
           | PathError opn path (Errno errno) \<Rightarrow> ret\<lparr>Code := translateErrno errno\<rparr>
           | _ \<Rightarrow> ret))"

section \<open>The server\<close>

text \<open>
  An \<open>*os.File\<close>: the descriptor tells two open files apart, and \<open>File_Name\<close> is the
  method \<open>Name()\<close>, the name the file was opened with.
\<close>

datatype os_File = File (fd: nat) (File_Name: string)

record openDirInfo =
  name :: string
  read :: bool

text \<open>
  The fields of \<open>Server\<close> that the packet handling reads or writes. The two maps are
  partial functions; the \<open>int\<close> counter and the \<open>int64\<close> limit are 64-bit words read
  as signed. A hook is \<open>None\<close> (or \<open>False\<close>) when the field is nil:
  \<open>uploadNotifier\<close> and \<open>opendirHook\<close> return nothing, so only their calls are
  recorded (as events), and \<open>readdirHook\<close> takes no argument, so it is what it returns.
  The transport, the packet channel, the lock and the debug stream are not fields here.
\<close>

record Server =
  readOnly :: bool
  openFiles :: "string \<rightharpoonup> os_File"
  openDirs :: "string \<rightharpoonup> openDirInfo"
  handleCount :: "64 word"
  maxTxPacket :: "32 word"
  uploadPath :: string
  fileSizeLimit :: "64 word"
  fileNameMapper :: "(string \<Rightarrow> string \<times> bool \<times> go_error option) option"
  uploadNotifier :: bool
  opendirHook :: bool
  readdirHook :: "(FileInfo list \<times> go_error option) option"

text \<open>
  What the server does to the world outside its own state, in the order it does it:
  the packets handed to \<open>sendPacket\<close>, the calls of the \<open>os\<close> package and of the
  methods of \<open>*os.File\<close>, the calls of the hooks, and the line written to the debug
  stream at shutdown.
\<close>

datatype event =
    Sent response
  | Call_os_Open string
  | Call_os_Create string
  | Call_os_Mkdir string
  | Call_os_Remove string
  | Call_os_Rename string string
  | Call_os_Symlink string string
  | Call_os_Readlink string
  | Call_os_Chtimes string "32 word" "32 word"
  | Call_Close os_File
  | Call_Stat os_File
  | Call_ReadAt os_File "32 word" "64 word"
  | Call_WriteAt os_File "byte list" "64 word"
  | Call_Readdir os_File int
  | Call_Truncate os_File "64 word"
  | Call_Chmod os_File "32 word"
  | Call_Chown os_File "32 word" "32 word"
  | Call_fileNameMapper string
  | Call_uploadNotifier string
  | Call_opendirHook
  | Call_readdirHook
  | Call_Extended_respond packet
  | Call_conn_Close
  | Fprintf_leftOpen string string

text \<open>
  What the world answers: the results of the calls that leave server.go (the standard
  library, the operating system, the transport, the packet decoders and the helpers of
  the package that are declared in other files). Every function of the model takes
  them as the parameter \<open>env\<close>.
\<close>

record env =
  path_Clean :: "string \<Rightarrow> string"
  errno_Error :: "nat \<Rightarrow> string"
  fxp_String :: "fxp \<Rightarrow> string"
  time_Now :: int
  runLs :: "string \<Rightarrow> FileInfo \<Rightarrow> string"
  UnmarshalBinary :: "packet \<Rightarrow> byte list \<Rightarrow> go_error + packet"
  unmarshalUint32Safe :: "byte list \<Rightarrow> 32 word \<times> byte list \<times> go_error option"
  unmarshalUint64Safe :: "byte list \<Rightarrow> 64 word \<times> byte list \<times> go_error option"
  sendPacket_result :: "response \<Rightarrow> go_error option"
  sendErrorCode_msg :: "fx \<Rightarrow> string"
  Extended_respond :: "packet \<Rightarrow> go_error option"
  os_Open :: "string \<Rightarrow> go_error + nat"
  os_Create :: "string \<Rightarrow> go_error + nat"
  os_Mkdir :: "string \<Rightarrow> go_error option"
  os_Remove :: "string \<Rightarrow> go_error option"
  os_Rename :: "string \<Rightarrow> string \<Rightarrow> go_error option"
  os_Symlink :: "string \<Rightarrow> string \<Rightarrow> go_error option"
  os_Readlink :: "string \<Rightarrow> go_error + string"
  os_Chtimes :: "string \<Rightarrow> 32 word \<Rightarrow> 32 word \<Rightarrow> go_error option"
  File_Close :: "os_File \<Rightarrow> go_error option"
  File_Stat :: "os_File \<Rightarrow> go_error + FileInfo"
  File_ReadAt :: "os_File \<Rightarrow> 32 word \<Rightarrow> 64 word \<Rightarrow> byte list \<times> go_error option"
  File_WriteAt :: "os_File \<Rightarrow> byte list \<Rightarrow> 64 word \<Rightarrow> go_error option"
  File_Readdir :: "os_File \<Rightarrow> int \<Rightarrow> FileInfo list \<times> go_error option"
  File_Truncate :: "os_File \<Rightarrow> 64 word \<Rightarrow> go_error option"
  File_Chmod :: "os_File \<Rightarrow> 32 word \<Rightarrow> go_error option"
  File_Chown :: "os_File \<Rightarrow> 32 word \<Rightarrow> 32 word \<Rightarrow> go_error option"

text \<open>
  How a function of the server ends: it returns its \<open>error\<close> (nil is \<open>None\<close>), or a
  slice expression out of range panics. With it come the server after the call and the
  events of the call.
\<close>

datatype ret = Return "go_error option" | Panic

type_synonym result = "Server \<times> event list \<times> ret"

definition after :: "event list \<Rightarrow> result \<Rightarrow> result" where
  "after evs r = (case r of (svr, evs', x) \<Rightarrow> (svr, evs @ evs', x))"

text \<open>\<open>errors.Wrap\<close> returns nil for a nil error.\<close>

definition errors_Wrap_nil :: "go_error option \<Rightarrow> string \<Rightarrow> go_error option" where
  "errors_Wrap_nil err m = (case err of None \<Rightarrow> None | Some e \<Rightarrow> Some (errors_Wrap e m))"

definition Wrap_result :: "result \<Rightarrow> string \<Rightarrow> result" where
  "Wrap_result r m =
     (case r of
        (svr, evs, Return err) \<Rightarrow> (svr, evs, Return (errors_Wrap_nil err m))
      | (svr, evs, Panic) \<Rightarrow> (svr, evs, Panic))"

subsection \<open>Sending\<close>

definition sendPacket :: "env \<Rightarrow> Server \<Rightarrow> response \<Rightarrow> result" where
  "sendPacket env svr r = (svr, [Sent r], Return (sendPacket_result env r))"

text \<open>
  Modelled from the spec: \<open>sendError\<close> is declared outside server.go. The spec has every
  local error funnelled through the error translator into a status response that
  carries the requesting packet's ID.
\<close>

definition sendError :: "env \<Rightarrow> Server \<Rightarrow> packet \<Rightarrow> go_error option \<Rightarrow> result" where
  "sendError env svr p err =
     sendPacket env svr (StatusPacket (statusFromError (errno_Error env) p err))"

text \<open>
  Modelled from the spec: \<open>sendErrorCode\<close> is declared outside server.go. The spec has it
  respond with a status packet of the given code for the requesting packet; the message
  it puts there is not said, and is a parameter.
\<close>

definition sendErrorCode :: "env \<Rightarrow> Server \<Rightarrow> packet \<Rightarrow> fx \<Rightarrow> result" where
  "sendErrorCode env svr p code =
     sendPacket env svr
       (StatusPacket \<lparr>status_ID = pkt_id p, Code = code, msg = sendErrorCode_msg env code\<rparr>)"

subsection \<open>The handle table\<close>

definition nextHandle :: "Server \<Rightarrow> os_File \<Rightarrow> string \<Rightarrow> Server \<times> string" where
  "nextHandle svr f dirName =
     (let svr1 = svr\<lparr>handleCount := handleCount svr + 1\<rparr>;
          handle = strconv_Itoa (sint (handleCount svr1));
          svr2 = svr1\<lparr>openFiles := (openFiles svr1)(handle \<mapsto> f)\<rparr>;
          svr3 = (if dirName \<noteq> []
                  then svr2\<lparr>openDirs := (openDirs svr2)(handle \<mapsto> \<lparr>name = dirName, read = False\<rparr>)\<rparr>
                  else svr2)
      in (svr3, handle))"

definition closeHandle :: "env \<Rightarrow> Server \<Rightarrow> string \<Rightarrow> Server \<times> event list \<times> go_error option" where
  "closeHandle env svr handle =
     (case openFiles svr handle of
        Some f \<Rightarrow>
          (let svr1 = svr\<lparr>openFiles := (openFiles svr)(handle := None)\<rparr>;
               isDir = (openDirs svr1 handle \<noteq> None);
               svr2 = (if isDir then svr1\<lparr>openDirs := (openDirs svr1)(handle := None)\<rparr> else svr1);
               fileName = File_Name f;
               err = File_Close env f
           in (svr2,
               [Call_Close f] @
               (if uploadNotifier svr \<and> \<not> isDir then [Call_uploadNotifier fileName] else []),
               err))
      | None \<Rightarrow> (svr, [], Some (Errno EBADF)))"

definition getHandle :: "Server \<Rightarrow> string \<Rightarrow> os_File option" where
  "getHandle svr handle = openFiles svr handle"

definition getHandleDirInfo :: "Server \<Rightarrow> string \<Rightarrow> openDirInfo option" where
  "getHandleDirInfo svr handle = openDirs svr handle"

subsection \<open>The virtual directory\<close>

definition isUploadDirOrAncestor :: "Server \<Rightarrow> string \<Rightarrow> bool" where
  "isUploadDirOrAncestor s dir =
     (if dir = uploadPath s \<or> dir = ''/'' then True
      else strings_HasPrefix (uploadPath s) (dir @ ''/''))"

subsection \<open>open and opendir\<close>

fun hasPflags :: "packet \<Rightarrow> 32 word list \<Rightarrow> bool" where
  "hasPflags p [] = True"
| "hasPflags p (f # flags) = (if Pflags p AND f = 0 then False else hasPflags p flags)"

definition sshFxpOpenPacket_readonly :: "packet \<Rightarrow> bool" where
  "sshFxpOpenPacket_readonly p = (\<not> hasPflags p [ssh_FXF_WRITE])"

text \<open>
  The end of \<open>respond\<close>, from \<open>if err != nil\<close> on: \<open>opened\<close> is the result of
  \<open>os.Open\<close> or \<open>os.Create\<close> on \<open>fname\<close>.
\<close>

definition sshFxpOpenPacket_respond_end ::
    "env \<Rightarrow> Server \<Rightarrow> packet \<Rightarrow> string \<Rightarrow> string \<Rightarrow> go_error + nat \<Rightarrow> result" where
  "sshFxpOpenPacket_respond_end env svr p dirName fname opened =
     (case opened of
        Inl err \<Rightarrow> sendError env svr p (Some err)
      | Inr d \<Rightarrow>
          (case nextHandle svr (File d fname) dirName of
             (svr', handle) \<Rightarrow> sendPacket env svr' (sshFxpHandlePacket (ID p) handle)))"

definition sshFxpOpenPacket_respond :: "env \<Rightarrow> Server \<Rightarrow> packet \<Rightarrow> result" where
  "sshFxpOpenPacket_respond env svr p =
     (let reqPath = path_Clean env (Path p) in
      if isUploadDirOrAncestor svr reqPath \<and> sshFxpOpenPacket_readonly p then
        after ([Call_os_Open ''/dev/null''] @ (if opendirHook svr then [Call_opendirHook] else []))
          (sshFxpOpenPacket_respond_end env svr p reqPath ''/dev/null'' (os_Open env ''/dev/null''))
      else if \<not> hasPflags p [ssh_FXF_WRITE] \<or> hasPflags p [ssh_FXF_APPEND] then
        sendErrorCode env svr p ssh_FX_OP_UNSUPPORTED
      else
        (let prefix = (if uploadPath svr \<noteq> ''/'' then uploadPath svr @ ''/'' else uploadPath svr) in
         if \<not> strings_HasPrefix (Path p) prefix then sendErrorCode env svr p ssh_FX_NO_SUCH_PATH
         else
           (case slice_from (Path p) (length prefix) of
              None \<Rightarrow> (svr, [], Panic)
            | Some fileName \<Rightarrow>
                if strings_ContainsRune fileName CHR ''/'' then
                  sendErrorCode env svr p ssh_FX_NO_SUCH_PATH
                else
                  (case fileNameMapper svr of
                     None \<Rightarrow>
                       after [Call_os_Create fileName]
                         (sshFxpOpenPacket_respond_end env svr p [] fileName (os_Create env fileName))
                   | Some mapper \<Rightarrow>
                       (case mapper fileName of
                          (fileName', ok, err) \<Rightarrow>
                            if err \<noteq> None then
                              after [Call_fileNameMapper fileName]
                                (sendErrorCode env svr p ssh_FX_FAILURE)
                            else if \<not> ok then
                              after [Call_fileNameMapper fileName]
                                (sendErrorCode env svr p ssh_FX_INVALID_FILENAME)
                            else
                              after [Call_fileNameMapper fileName, Call_os_Create fileName']
                                (sshFxpOpenPacket_respond_end env svr p [] fileName'
                                   (os_Create env fileName')))))))"

subsection \<open>readdir\<close>

text \<open>The end of \<open>respond\<close>, from \<open>if err != nil\<close> on.\<close>

definition sshFxpReaddirPacket_respond_end ::
    "env \<Rightarrow> Server \<Rightarrow> packet \<Rightarrow> string \<Rightarrow> FileInfo list \<Rightarrow> go_error option \<Rightarrow> result" where
  "sshFxpReaddirPacket_respond_end env svr p dirname dirents err =
     (if err \<noteq> None then sendError env svr p err
      else sendPacket env svr
        (sshFxpNamePacket (ID p)
           (map (\<lambda>dirent. \<lparr>Name = fileInfo_name dirent,
                           LongName = runLs env dirname dirent,
                           NameAttr_Attrs = FileInfoAttrs dirent\<rparr>) dirents)))"

definition sshFxpReaddirPacket_respond :: "env \<Rightarrow> Server \<Rightarrow> packet \<Rightarrow> result" where
  "sshFxpReaddirPacket_respond env svr p =
     (case getHandle svr (Handle p) of
        None \<Rightarrow> sendError env svr p (Some (Errno EBADF))
      | Some f \<Rightarrow>
          (case readdirHook svr of
             Some hook \<Rightarrow>
               (case getHandleDirInfo svr (Handle p) of
                  None \<Rightarrow> sendError env svr p (Some (Errno EBADF))
                | Some dirInfo \<Rightarrow>
                    (let dirPath = name dirInfo in
                     if dirPath = uploadPath svr then
                       after [Call_readdirHook]
                         (sshFxpReaddirPacket_respond_end env svr p [] (fst hook) (snd hook))
                     else if isUploadDirOrAncestor svr dirPath then
                       (if read dirInfo then
                          sshFxpReaddirPacket_respond_end env svr p [] [] (Some io_EOF)
                        else
                          (let prefixLen = (if dirPath = ''/'' then 1 else length dirPath + 1) in
                           case slice_from (uploadPath svr) prefixLen of
                             None \<Rightarrow> (svr, [], Panic)
                           | Some rest \<Rightarrow>
                               (let i = strings_Index rest ''/'' in
                                case (if i \<noteq> - 1 then slice_to rest (nat i) else Some rest) of
                                  None \<Rightarrow> (svr, [], Panic)
                                | Some childDirName \<Rightarrow>
                                    (let dirents = [\<lparr>fileInfo_name = childDirName,
                                                     fileInfo_mode = ModeDir_0755,
                                                     fileInfo_mtime = time_Now env\<rparr>];
                                         svr' = svr\<lparr>openDirs :=
                                                  (openDirs svr)(Handle p \<mapsto> dirInfo\<lparr>read := True\<rparr>)\<rparr>
                                     in sshFxpReaddirPacket_respond_end env svr' p [] dirents None))))
                     else sendError env svr p (Some (Errno EBADF))))
           | None \<Rightarrow>
               after [Call_Readdir f 128]
                 (sshFxpReaddirPacket_respond_end env svr p (File_Name f)
                    (fst (File_Readdir env f 128)) (snd (File_Readdir env f 128)))))"

subsection \<open>setstat and fsetstat\<close>

definition sshFxpSetstatPacket_respond :: "env \<Rightarrow> Server \<Rightarrow> packet \<Rightarrow> result" where
  "sshFxpSetstatPacket_respond env svr p = sendError env svr p None"

text \<open>
  The four attribute blocks of fsetstat. Each takes and returns the rest \<open>b\<close> of the
  attribute bytes, the error so far and the events so far; a block whose flag is not set
  leaves all three as they are.
\<close>

type_synonym fsetstat_state = "byte list \<times> go_error option \<times> event list"

definition fsetstat_size :: "env \<Rightarrow> os_File \<Rightarrow> 32 word \<Rightarrow> fsetstat_state \<Rightarrow> fsetstat_state" where
  "fsetstat_size env f flags st =
     (case st of (b, err, evs) \<Rightarrow>
        if flags AND ssh_FILEXFER_ATTR_SIZE \<noteq> 0 then
          (case unmarshalUint64Safe env b of
             (size64, b', e) \<Rightarrow>
               if e = None then (b', File_Truncate env f size64, evs @ [Call_Truncate f size64])
               else (b', e, evs))
        else (b, err, evs))"

definition fsetstat_permissions :: "env \<Rightarrow> os_File \<Rightarrow> 32 word \<Rightarrow> fsetstat_state \<Rightarrow> fsetstat_state" where
  "fsetstat_permissions env f flags st =
     (case st of (b, err, evs) \<Rightarrow>
        if flags AND ssh_FILEXFER_ATTR_PERMISSIONS \<noteq> 0 then
          (case unmarshalUint32Safe env b of
             (mode32, b', e) \<Rightarrow>
               if e = None then (b', File_Chmod env f mode32, evs @ [Call_Chmod f mode32])
               else (b', e, evs))
        else (b, err, evs))"

definition fsetstat_acmodtime :: "env \<Rightarrow> os_File \<Rightarrow> 32 word \<Rightarrow> fsetstat_state \<Rightarrow> fsetstat_state" where
  "fsetstat_acmodtime env f flags st =
     (case st of (b, err, evs) \<Rightarrow>
        if flags AND ssh_FILEXFER_ATTR_ACMODTIME \<noteq> 0 then
          (case unmarshalUint32Safe env b of
             (atime, b', e) \<Rightarrow>
               if e \<noteq> None then (b', e, evs)
               else
                 (case unmarshalUint32Safe env b' of
                    (mtime, b'', e') \<Rightarrow>
                      if e' \<noteq> None then (b'', e', evs)
                      else (b'', os_Chtimes env (File_Name f) atime mtime,
                            evs @ [Call_os_Chtimes (File_Name f) atime mtime])))
        else (b, err, evs))"

definition fsetstat_uidgid :: "env \<Rightarrow> os_File \<Rightarrow> 32 word \<Rightarrow> fsetstat_state \<Rightarrow> fsetstat_state" where
  "fsetstat_uidgid env f flags st =
     (case st of (b, err, evs) \<Rightarrow>
        if flags AND ssh_FILEXFER_ATTR_UIDGID \<noteq> 0 then
          (case unmarshalUint32Safe env b of
             (uid, b', e) \<Rightarrow>
               if e \<noteq> None then (b', e, evs)
               else
                 (case unmarshalUint32Safe env b' of
                    (gid, b'', e') \<Rightarrow>
                      if e' \<noteq> None then (b'', e', evs)
                      else (b'', File_Chown env f uid gid, evs @ [Call_Chown f uid gid])))
        else (b, err, evs))"

definition sshFxpFsetstatPacket_respond :: "env \<Rightarrow> Server \<Rightarrow> packet \<Rightarrow> result" where
  "sshFxpFsetstatPacket_respond env svr p =
     (case getHandle svr (Handle p) of
        None \<Rightarrow> sendError env svr p (Some (Errno EBADF))
      | Some f \<Rightarrow>
          (case fsetstat_uidgid env f (Flags p)
                  (fsetstat_acmodtime env f (Flags p)
                     (fsetstat_permissions env f (Flags p)
                        (fsetstat_size env f (Flags p) (Attrs p, None, [])))) of
             (b, err, evs) \<Rightarrow> after evs (sendError env svr p err)))"

subsection \<open>handlePacket\<close>

text \<open>
  Modelled from the spec: \<open>sftpProtocolVersion\<close> is declared outside server.go. The spec
  has init answered with the fixed protocol version, and the comment on \<open>Server\<close> says
  which: version 3.
\<close>

definition sftpProtocolVersion :: nat where
  "sftpProtocolVersion = 3"

definition clamp :: "32 word \<Rightarrow> 32 word \<Rightarrow> 32 word" where
  "clamp v mx = (if v > mx then mx else v)"

definition doStat :: "env \<Rightarrow> Server \<Rightarrow> packet \<Rightarrow> string \<Rightarrow> result" where
  "doStat env s p reqPath0 =
     (let reqPath = path_Clean env reqPath0 in
      if isUploadDirOrAncestor s reqPath then
        sendPacket env s
          (sshFxpStatResponse (pkt_id p)
             \<lparr>fileInfo_name = reqPath, fileInfo_mode = ModeDir_0755, fileInfo_mtime = time_Now env\<rparr>)
      else sendError env s p (Some (Errno ENOENT)))"

text \<open>
  The type switch of \<open>handlePacket\<close>, one equation per packet type. The last five types
  are the ones with a method \<open>respond\<close> (the case \<open>serverRespondablePacket\<close>); the
  \<open>respond\<close> of the extended packet is declared outside server.go and is a parameter.
  Every packet type is one of these, so the \<open>default\<close> of the switch has no equation.
\<close>

fun handlePacket :: "env \<Rightarrow> Server \<Rightarrow> packet \<Rightarrow> result" where
  "handlePacket env s sshFxInitPacket = sendPacket env s (sshFxVersionPacket sftpProtocolVersion)"
| "handlePacket env s (sshFxpStatPacket i path) =
     doStat env s (sshFxpStatPacket i path) path"
| "handlePacket env s (sshFxpLstatPacket i path) =
     doStat env s (sshFxpLstatPacket i path) path"
| "handlePacket env s (sshFxpFstatPacket i h) =
     (case getHandle s h of
        None \<Rightarrow> sendError env s (sshFxpFstatPacket i h) (Some (Errno EBADF))
      | Some f \<Rightarrow>
          after [Call_Stat f]
            (case File_Stat env f of
               Inl err \<Rightarrow> sendError env s (sshFxpFstatPacket i h) (Some err)
             | Inr info \<Rightarrow> sendPacket env s (sshFxpStatResponse i info)))"
| "handlePacket env s (sshFxpMkdirPacket i path fl) =
     after [Call_os_Mkdir path] (sendError env s (sshFxpMkdirPacket i path fl) (os_Mkdir env path))"
| "handlePacket env s (sshFxpRmdirPacket i path) =
     after [Call_os_Remove path] (sendError env s (sshFxpRmdirPacket i path) (os_Remove env path))"
| "handlePacket env s (sshFxpRemovePacket i fname) =
     after [Call_os_Remove fname] (sendError env s (sshFxpRemovePacket i fname) (os_Remove env fname))"
| "handlePacket env s (sshFxpRenamePacket i old new) =
     after [Call_os_Rename old new]
       (sendError env s (sshFxpRenamePacket i old new) (os_Rename env old new))"
| "handlePacket env s (sshFxpSymlinkPacket i target link) =
     after [Call_os_Symlink target link]
       (sendError env s (sshFxpSymlinkPacket i target link) (os_Symlink env target link))"
| "handlePacket env s (sshFxpClosePacket i h) =
     (case closeHandle env s h of
        (s', evs, err) \<Rightarrow> after evs (sendError env s' (sshFxpClosePacket i h) err))"
| "handlePacket env s (sshFxpReadlinkPacket i path) =
     after [Call_os_Readlink path]
       (case os_Readlink env path of
          Inl err \<Rightarrow> sendError env s (sshFxpReadlinkPacket i path) (Some err)
        | Inr f \<Rightarrow>
            sendPacket env s
              (sshFxpNamePacket i [\<lparr>Name = f, LongName = f, NameAttr_Attrs = emptyFileStat\<rparr>]))"
| "handlePacket env s (sshFxpRealpathPacket i path) =
     (let retPath = (if path = [] \<or> hd path \<noteq> CHR ''/''
                     then path_Clean env (uploadPath s @ ''/'' @ path)
                     else path_Clean env path)
      in sendPacket env s
           (sshFxpNamePacket i
              [\<lparr>Name = retPath, LongName = retPath, NameAttr_Attrs = emptyFileStat\<rparr>]))"
| "handlePacket env s (sshFxpOpendirPacket i path) =
     sshFxpOpenPacket_respond env s (sshFxpOpenPacket i path ssh_FXF_READ 0)"
| "handlePacket env s (sshFxpReadPacket i h off len) =
     (case getHandle s h of
        None \<Rightarrow> sendError env s (sshFxpReadPacket i h off len) (Some (Errno EBADF))
      | Some f \<Rightarrow>
          (let want = clamp len (maxTxPacket s);
               bytes = fst (File_ReadAt env f want off);
               err = snd (File_ReadAt env f want off);
               n = length bytes
           in after [Call_ReadAt f want off]
                (if err \<noteq> None \<and> (err \<noteq> Some io_EOF \<or> n = 0) then
                   sendError env s (sshFxpReadPacket i h off len) err
                 else if unat want < n then (s, [], Panic)
                 else sendPacket env s (sshFxpDataPacket i (of_nat n) bytes))))"
| "handlePacket env s (sshFxpWritePacket i h off bytes) =
     (case getHandle s h of
        None \<Rightarrow> sendError env s (sshFxpWritePacket i h off bytes) (Some (Errno EBADF))
      | Some f \<Rightarrow>
          if 0 < sint (fileSizeLimit s) \<and>
             sint (off + of_nat (length bytes)) > sint (fileSizeLimit s)
          then sendError env s (sshFxpWritePacket i h off bytes) (Some (Errno EFBIG))
          else
            after [Call_WriteAt f bytes off]
              (sendError env s (sshFxpWritePacket i h off bytes) (File_WriteAt env f bytes off)))"
| "handlePacket env s (sshFxpOpenPacket i path pf fl) =
     Wrap_result (sshFxpOpenPacket_respond env s (sshFxpOpenPacket i path pf fl))
       ''pkt.respond failed''"
| "handlePacket env s (sshFxpReaddirPacket i h) =
     Wrap_result (sshFxpReaddirPacket_respond env s (sshFxpReaddirPacket i h))
       ''pkt.respond failed''"
| "handlePacket env s (sshFxpSetstatPacket i path fl at) =
     Wrap_result (sshFxpSetstatPacket_respond env s (sshFxpSetstatPacket i path fl at))
       ''pkt.respond failed''"
| "handlePacket env s (sshFxpFsetstatPacket i h fl at) =
     Wrap_result (sshFxpFsetstatPacket_respond env s (sshFxpFsetstatPacket i h fl at))
       ''pkt.respond failed''"
| "handlePacket env s (sshFxpExtendedPacket i ro) =
     Wrap_result
       (s, [Call_Extended_respond (sshFxpExtendedPacket i ro)],
        Return (Extended_respond env (sshFxpExtendedPacket i ro)))
       ''pkt.respond failed''"

subsection \<open>The worker\<close>

record rxPacket =
  pktType :: fxp
  pktBytes :: "byte list"

definition allowedPacketTypes :: "fxp \<rightharpoonup> bool" where
  "allowedPacketTypes =
     [ssh_FXP_INIT \<mapsto> True,
      ssh_FXP_OPEN \<mapsto> True,
      ssh_FXP_CLOSE \<mapsto> True,
      ssh_FXP_WRITE \<mapsto> True,
      ssh_FXP_STAT \<mapsto> True,
      ssh_FXP_LSTAT \<mapsto> True,
      ssh_FXP_OPENDIR \<mapsto> True,
      ssh_FXP_READDIR \<mapsto> True,
      ssh_FXP_SETSTAT \<mapsto> True,
      ssh_FXP_REALPATH \<mapsto> True]"

text \<open>Reading a Go \<open>map[fxp]bool\<close>: a key that is not there reads as \<open>false\<close>.\<close>

definition map_index :: "('k \<rightharpoonup> bool) \<Rightarrow> 'k \<Rightarrow> bool" where
  "map_index m k = (case m k of Some b \<Rightarrow> b | None \<Rightarrow> False)"

text \<open>
  The first switch of the worker: the empty packet of the type and the value of the
  variable \<open>readonly\<close> after the switch; \<open>None\<close> is the \<open>default\<close> case.
\<close>

fun packet_of_type :: "fxp \<Rightarrow> (packet \<times> bool) option" where
  "packet_of_type ssh_FXP_INIT = Some (sshFxInitPacket, True)"
| "packet_of_type ssh_FXP_LSTAT = Some (sshFxpLstatPacket 0 [], True)"
| "packet_of_type ssh_FXP_OPEN = Some (sshFxpOpenPacket 0 [] 0 0, True)"
| "packet_of_type ssh_FXP_CLOSE = Some (sshFxpClosePacket 0 [], True)"
| "packet_of_type ssh_FXP_READ = Some (sshFxpReadPacket 0 [] 0 0, True)"
| "packet_of_type ssh_FXP_WRITE = Some (sshFxpWritePacket 0 [] 0 [], False)"
| "packet_of_type ssh_FXP_FSTAT = Some (sshFxpFstatPacket 0 [], True)"
| "packet_of_type ssh_FXP_SETSTAT = Some (sshFxpSetstatPacket 0 [] 0 [], False)"
| "packet_of_type ssh_FXP_FSETSTAT = Some (sshFxpFsetstatPacket 0 [] 0 [], False)"
| "packet_of_type ssh_FXP_OPENDIR = Some (sshFxpOpendirPacket 0 [], True)"
| "packet_of_type ssh_FXP_READDIR = Some (sshFxpReaddirPacket 0 [], True)"
| "packet_of_type ssh_FXP_REMOVE = Some (sshFxpRemovePacket 0 [], False)"
| "packet_of_type ssh_FXP_MKDIR = Some (sshFxpMkdirPacket 0 [] 0, False)"
| "packet_of_type ssh_FXP_RMDIR = Some (sshFxpRmdirPacket 0 [], False)"
| "packet_of_type ssh_FXP_REALPATH = Some (sshFxpRealpathPacket 0 [], True)"
| "packet_of_type ssh_FXP_STAT = Some (sshFxpStatPacket 0 [], True)"
| "packet_of_type ssh_FXP_RENAME = Some (sshFxpRenamePacket 0 [] [], False)"
| "packet_of_type ssh_FXP_READLINK = Some (sshFxpReadlinkPacket 0 [], True)"
| "packet_of_type ssh_FXP_SYMLINK = Some (sshFxpSymlinkPacket 0 [] [], False)"
| "packet_of_type ssh_FXP_EXTENDED = Some (sshFxpExtendedPacket 0 True, True)"
| "packet_of_type (ssh_FXP_unlisted b) = None"

text \<open>The second switch: open and extended packets say themselves whether they only read.\<close>

fun packet_readonly :: "packet \<Rightarrow> bool \<Rightarrow> bool" where
  "packet_readonly (sshFxpOpenPacket i path pf fl) readonly =
     sshFxpOpenPacket_readonly (sshFxpOpenPacket i path pf fl)"
| "packet_readonly (sshFxpExtendedPacket i ro) readonly = ro"
| "packet_readonly p readonly = readonly"

text \<open>
  One turn of the loop of \<open>sftpServerWorker\<close> on a received packet. \<open>Return None\<close> is
  the end of the turn (also by \<open>continue\<close>), \<open>Return (Some err)\<close> is \<open>return err\<close>.
\<close>

definition sftpServerWorker_turn :: "env \<Rightarrow> Server \<Rightarrow> rxPacket \<Rightarrow> result" where
  "sftpServerWorker_turn env svr p =
     (case packet_of_type (pktType p) of
        None \<Rightarrow>
          (svr, [],
           Return (Some (errors_New (''unhandled packet type: '' @ fxp_String env (pktType p)))))
      | Some (pkt0, readonly0) \<Rightarrow>
          (case UnmarshalBinary env pkt0 (pktBytes p) of
             Inl err \<Rightarrow> (svr, [], Return (Some err))
           | Inr pkt \<Rightarrow>
               if \<not> map_index allowedPacketTypes (pktType p) then
                 Wrap_result (sendErrorCode env svr pkt ssh_FX_OP_UNSUPPORTED)
                   ''failed to send op unsupported response''
               else
                 (let readonly = packet_readonly pkt readonly0 in
                  if \<not> readonly \<and> readOnly svr then
                    Wrap_result (sendError env svr pkt (Some (Errno EPERM)))
                      ''failed to send read only packet response''
                  else handlePacket env svr pkt)))"

fun sftpServerWorker :: "env \<Rightarrow> Server \<Rightarrow> rxPacket list \<Rightarrow> result" where
  "sftpServerWorker env svr [] = (svr, [], Return None)"
| "sftpServerWorker env svr (p # ps) =
     (case sftpServerWorker_turn env svr p of
        (svr', evs, Return None) \<Rightarrow> after evs (sftpServerWorker env svr' ps)
      | (svr', evs, Return (Some err)) \<Rightarrow> (svr', evs, Return (Some err))
      | (svr', evs, Panic) \<Rightarrow> (svr', evs, Panic))"

subsection \<open>Serve\<close>

text \<open>
  The loop at the end of \<open>Serve\<close> over the files still open. Go ranges over the map in
  an order of its own choosing: \<open>order\<close> is that order, a list of the handles of the
  table. What \<open>Close\<close> returns is dropped.
\<close>

fun Serve_close_open_files :: "Server \<Rightarrow> string list \<Rightarrow> event list" where
  "Serve_close_open_files svr [] = []"
| "Serve_close_open_files svr (handle # order) =
     (case openFiles svr handle of
        None \<Rightarrow> Serve_close_open_files svr order
      | Some file \<Rightarrow>
          [Fprintf_leftOpen handle (File_Name file), Call_Close file]
          @ Serve_close_open_files svr order)"

text \<open>
  \<open>Serve\<close> with its one worker (\<open>sftpServerWorkerCount\<close> is 1): \<open>received\<close> are the
  packets \<open>recvPacket\<close> delivered before it failed with \<open>err\<close>, which the worker takes
  from the channel in that order. A worker that returns an error closes the connection.
  \<open>Serve\<close> returns the error of \<open>recvPacket\<close>. A panic of the worker ends the process.
\<close>

definition Serve :: "env \<Rightarrow> Server \<Rightarrow> rxPacket list \<Rightarrow> go_error \<Rightarrow> string list \<Rightarrow> result" where
  "Serve env svr received err order =
     (case sftpServerWorker env svr received of
        (svr', evs, Panic) \<Rightarrow> (svr', evs, Panic)
      | (svr', evs, Return werr) \<Rightarrow>
          (svr',
           evs @ (if werr \<noteq> None then [Call_conn_Close] else [])
               @ Serve_close_open_files svr' order,
           Return (Some err)))"

section \<open>A world and servers for the examples\<close>

text \<open>
  \<open>syscall.EACCES\<close>, the error number whose text is "permission denied" (Linux).
  server.go does not name it.
\<close>

definition EACCES :: nat where "EACCES = 13"

text \<open>
  The texts of the error numbers that server.go names, and of \<open>EACCES\<close>, as Linux has
  them.
\<close>

definition errno_text :: "nat \<Rightarrow> string" where
  "errno_text n =
     (if n = EPERM then ''operation not permitted''
      else if n = EACCES then ''permission denied''
      else if n = ENOENT then ''no such file or directory''
      else if n = EBADF then ''bad file descriptor''
      else if n = EFBIG then ''file too large''
      else ''errno '' @ digits n)"

text \<open>
  A world in which the calls succeed: the decoder answers with the packet \<open>pkt\<close>,
  \<open>os.Open\<close> and \<open>os.Create\<close> with the descriptors 3 and 4 (but no file can be
  created under the empty name), and the paths of the examples are clean already, so
  \<open>path.Clean\<close> returns them as they are.
\<close>

definition world :: "packet \<Rightarrow> env" where
  "world pkt =
     \<lparr>path_Clean = (\<lambda>p. p),
      errno_Error = errno_text,
      fxp_String = (\<lambda>t. ''fxp''),
      time_Now = 0,
      runLs = (\<lambda>dirname info. fileInfo_name info),
      UnmarshalBinary = (\<lambda>blank b. Inr pkt),
      unmarshalUint32Safe = (\<lambda>b. (0, b, None)),
      unmarshalUint64Safe = (\<lambda>b. (0, b, None)),
      sendPacket_result = (\<lambda>r. None),
      sendErrorCode_msg = (\<lambda>code. []),
      Extended_respond = (\<lambda>p. None),
      os_Open = (\<lambda>path. Inr 3),
      os_Create = (\<lambda>path. if path = [] then Inl (PathError ''open'' path (Errno ENOENT)) else Inr 4),
      os_Mkdir = (\<lambda>path. None),
      os_Remove = (\<lambda>path. None),
      os_Rename = (\<lambda>old new. None),
      os_Symlink = (\<lambda>target link. None),
      os_Readlink = (\<lambda>path. Inr path),
      os_Chtimes = (\<lambda>path atime mtime. None),
      File_Close = (\<lambda>f. None),
      File_Stat = (\<lambda>f. Inl (Errno EBADF)),
      File_ReadAt = (\<lambda>f n off. ([], Some io_EOF)),
      File_WriteAt = (\<lambda>f b off. None),
      File_Readdir = (\<lambda>f n. ([], Some io_EOF)),
      File_Truncate = (\<lambda>f n. None),
      File_Chmod = (\<lambda>f m. None),
      File_Chown = (\<lambda>f uid gid. None)\<rparr>"

text \<open>A new server for the upload directory \<open>/up\<close>, as \<open>NewServer\<close> leaves it.\<close>

definition server_up :: Server where
  "server_up =
     \<lparr>readOnly = False,
      openFiles = Map.empty,
      openDirs = Map.empty,
      handleCount = 0,
      maxTxPacket = push_bit 15 1,
      uploadPath = ''/up'',
      fileSizeLimit = 0,
      fileNameMapper = None,
      uploadNotifier = False,
      opendirHook = False,
      readdirHook = None\<rparr>"

definition server_ro :: Server where
  "server_ro = server_up\<lparr>readOnly := True\<rparr>"

text \<open>
  The server after the upload \<open>/up/a.txt\<close> was opened: handle \<open>1\<close> is the open file.
  It has an upload notifier and a file-size limit of 10 bytes.
\<close>

definition server_open :: Server where
  "server_open =
     server_up\<lparr>openFiles := [''1'' \<mapsto> File 4 ''a.txt''], handleCount := 1,
               fileSizeLimit := 10, uploadNotifier := True\<rparr>"

text \<open>A server with a directory-listing hook, which lists one file \<open>a.txt\<close>.\<close>

definition server_hook :: Server where
  "server_hook =
     server_up\<lparr>readdirHook :=
       Some ([\<lparr>fileInfo_name = ''a.txt'', fileInfo_mode = 420, fileInfo_mtime = 0\<rparr>], None)\<rparr>"

text \<open>
  The same server with the relative upload directory \<open>up\<close>, as \<open>NewServer\<close> leaves it
  for the option \<open>UploadPath("up")\<close>.
\<close>

definition server_relative :: Server where
  "server_relative = server_hook\<lparr>uploadPath := ''up''\<rparr>"

text \<open>A server whose filename mapper puts every upload under \<open>/srv/incoming\<close>.\<close>

definition server_mapper :: Server where
  "server_mapper =
     server_up\<lparr>fileNameMapper := Some (\<lambda>fileName. (''/srv/incoming/'' @ fileName, True, None))\<rparr>"

text \<open>
  The prefix that the open handler strips from the path of an upload: the upload
  directory and a slash (the upload directory \<open>/\<close> is its own prefix).
\<close>

definition upload_prefix :: "Server \<Rightarrow> string" where
  "upload_prefix svr = (if uploadPath svr \<noteq> ''/'' then uploadPath svr @ ''/'' else uploadPath svr)"

text \<open>
  The filename mapper accepts \<open>fileName\<close> and the file to create is \<open>target\<close>: without
  a mapper every name is accepted as it is.
\<close>

definition accepts :: "Server \<Rightarrow> string \<Rightarrow> string \<Rightarrow> bool" where
  "accepts svr fileName target =
     (case fileNameMapper svr of
        None \<Rightarrow> target = fileName
      | Some mapper \<Rightarrow> mapper fileName = (target, True, None))"

text \<open>The packet type of which each packet struct is the decoded form.\<close>

fun packet_type :: "packet \<Rightarrow> fxp" where
  "packet_type sshFxInitPacket = ssh_FXP_INIT"
| "packet_type (sshFxpLstatPacket i path) = ssh_FXP_LSTAT"
| "packet_type (sshFxpOpenPacket i path pf fl) = ssh_FXP_OPEN"
| "packet_type (sshFxpClosePacket i h) = ssh_FXP_CLOSE"
| "packet_type (sshFxpReadPacket i h off len) = ssh_FXP_READ"
| "packet_type (sshFxpWritePacket i h off bytes) = ssh_FXP_WRITE"
| "packet_type (sshFxpFstatPacket i h) = ssh_FXP_FSTAT"
| "packet_type (sshFxpSetstatPacket i path fl at) = ssh_FXP_SETSTAT"
| "packet_type (sshFxpFsetstatPacket i h fl at) = ssh_FXP_FSETSTAT"
| "packet_type (sshFxpOpendirPacket i path) = ssh_FXP_OPENDIR"
| "packet_type (sshFxpReaddirPacket i h) = ssh_FXP_READDIR"
| "packet_type (sshFxpRemovePacket i fname) = ssh_FXP_REMOVE"
| "packet_type (sshFxpMkdirPacket i path fl) = ssh_FXP_MKDIR"
| "packet_type (sshFxpRmdirPacket i path) = ssh_FXP_RMDIR"
| "packet_type (sshFxpRealpathPacket i path) = ssh_FXP_REALPATH"
| "packet_type (sshFxpStatPacket i path) = ssh_FXP_STAT"
| "packet_type (sshFxpRenamePacket i old new) = ssh_FXP_RENAME"
| "packet_type (sshFxpReadlinkPacket i path) = ssh_FXP_READLINK"
| "packet_type (sshFxpSymlinkPacket i target link) = ssh_FXP_SYMLINK"
| "packet_type (sshFxpExtendedPacket i ro) = ssh_FXP_EXTENDED"

section \<open>The path check\<close>

lemma HasPrefix_iff: "strings_HasPrefix s pre = (\<exists>rest. s = pre @ rest)"
  unfolding strings_HasPrefix_def
  by (metis append_eq_conv_conj append_take_drop_id length_append le_add1)

lemma ancestor_iff:
  "isUploadDirOrAncestor s p \<longleftrightarrow>
     (p = uploadPath s \<or> p = ''/'' \<or> strings_HasPrefix (uploadPath s) (p @ ''/''))"
  by (simp add: isUploadDirOrAncestor_def)

text \<open>
  Claim C2: for every string \<open>p\<close>, \<open>isUploadDirOrAncestor p\<close> is true if and only if
  \<open>p\<close> is the upload directory, \<open>p\<close> is \<open>/\<close>, or the upload directory starts with
  \<open>p\<close> followed by \<open>/\<close>.
\<close>

theorem isUploadDirOrAncestor_iff:
  "isUploadDirOrAncestor s p \<longleftrightarrow>
     (p = uploadPath s \<or> p = ''/'' \<or> (\<exists>rest. uploadPath s = p @ ''/'' @ rest))"
  unfolding ancestor_iff HasPrefix_iff by simp

text \<open>With the upload directory \<open>/up\<close>: \<open>/up\<close> and \<open>/\<close> qualify, \<open>/u\<close> does not.\<close>

theorem isUploadDirOrAncestor_iff_witness:
  "isUploadDirOrAncestor server_up ''/up'' \<and> isUploadDirOrAncestor server_up ''/''
   \<and> \<not> isUploadDirOrAncestor server_up ''/u''"
  using isUploadDirOrAncestor_iff [of server_up "''/up''"]
    isUploadDirOrAncestor_iff [of server_up "''/''"]
    isUploadDirOrAncestor_iff [of server_up "''/u''"]
  by (simp add: server_up_def)

section \<open>The error translator\<close>

text \<open>
  Claim C5 has the local "permission denied" condition map to PERMISSION_DENIED, and
  every non-nil error other than the end of stream, "no such entry", "permission
  denied" and their path-qualified forms map to FAILURE with a non-empty message. The
  error number 0 is a non-nil error and maps to OK; an error whose text is empty gives
  an empty message; and \<open>EACCES\<close>, the error number whose text is "permission denied",
  maps to FAILURE.
\<close>

theorem statusFromError_counterexample:
  "Code (statusFromError errno_text sshFxInitPacket (Some (Errno 0))) = ssh_FX_OK
   \<and> Code (statusFromError errno_text sshFxInitPacket (Some (Errno 0))) \<noteq> ssh_FX_FAILURE
   \<and> msg (statusFromError errno_text sshFxInitPacket (Some (errors_New []))) = []
   \<and> errno_text EACCES = ''permission denied''
   \<and> Code (statusFromError errno_text sshFxInitPacket (Some (Errno EACCES))) = ssh_FX_FAILURE
   \<and> Code (statusFromError errno_text sshFxInitPacket (Some (Errno EACCES)))
       \<noteq> ssh_FX_PERMISSION_DENIED"
  by (simp add: statusFromError_def translateErrno_def errno_text_def EACCES_def EPERM_def
      ENOENT_def)

text \<open>
  Claim C5, amended: a nil error maps to OK; \<open>io.EOF\<close> to EOF; \<open>ENOENT\<close> to
  NO_SUCH_FILE; \<open>EPERM\<close> (the error the read-only gate sends as "permission denied")
  to PERMISSION_DENIED; the error number 0 to OK; an error number inside a path error
  maps as the number itself does; every other non-nil error, \<open>EACCES\<close> apart, maps to
  FAILURE; and every non-nil error carries its text as the message (which is empty when
  the text is). The status always carries the ID of the packet. What becomes of
  \<open>EACCES\<close>, the other "permission denied" condition, is not part of the statement:
  \<open>translateErrno\<close> has no case for it.
\<close>

theorem statusFromError_translation:
  "statusFromError tbl p None = \<lparr>status_ID = pkt_id p, Code = ssh_FX_OK, msg = []\<rparr>
   \<and> Code (statusFromError tbl p (Some io_EOF)) = ssh_FX_EOF
   \<and> Code (statusFromError tbl p (Some (Errno ENOENT))) = ssh_FX_NO_SUCH_FILE
   \<and> Code (statusFromError tbl p (Some (Errno EPERM))) = ssh_FX_PERMISSION_DENIED
   \<and> Code (statusFromError tbl p (Some (Errno 0))) = ssh_FX_OK
   \<and> Code (statusFromError tbl p (Some (PathError opn path (Errno n))))
       = Code (statusFromError tbl p (Some (Errno n)))
   \<and> (e \<noteq> io_EOF
        \<and> (\<forall>k\<in>{0, ENOENT, EPERM, EACCES}. e \<noteq> Errno k \<and> (\<forall>opn path. e \<noteq> PathError opn path (Errno k)))
      \<longrightarrow> Code (statusFromError tbl p (Some e)) = ssh_FX_FAILURE)
   \<and> msg (statusFromError tbl p (Some e)) = Error tbl e
   \<and> status_ID (statusFromError tbl p err) = pkt_id p"
proof -
  have code_other: "Code (statusFromError tbl p (Some e)) = ssh_FX_FAILURE"
    if "e \<noteq> io_EOF"
      and "\<forall>k\<in>{0, ENOENT, EPERM, EACCES}. e \<noteq> Errno k \<and> (\<forall>opn path. e \<noteq> PathError opn path (Errno k))"
  proof (cases e)
    case (PathError opn path inner)
    with that show ?thesis
      by (cases inner) (auto simp: statusFromError_def translateErrno_def)
  qed (use that in \<open>auto simp: statusFromError_def translateErrno_def\<close>)
  have message: "msg (statusFromError tbl p (Some e)) = Error tbl e"
  proof (cases e)
    case (PathError opn path inner)
    then show ?thesis by (cases inner) (simp_all add: statusFromError_def)
  qed (simp_all add: statusFromError_def)
  have ident: "status_ID (statusFromError tbl p err) = pkt_id p"
  proof (cases err)
    case (Some e')
    show ?thesis
    proof (cases e')
      case (PathError opn path inner)
      with Some show ?thesis by (cases inner) (simp_all add: statusFromError_def)
    qed (use Some in \<open>simp_all add: statusFromError_def\<close>)
  qed (simp add: statusFromError_def)
  show ?thesis
    using code_other message ident
    by (simp add: statusFromError_def translateErrno_def ENOENT_def EPERM_def)
qed

text \<open>The "bad file descriptor" error is one of the other errors.\<close>

theorem statusFromError_translation_witness:
  "Errno EBADF \<noteq> io_EOF \<and> EBADF \<notin> {0, ENOENT, EPERM, EACCES}
   \<and> Code (statusFromError errno_text (sshFxpClosePacket 7 ''1'') (Some (Errno EBADF))) = ssh_FX_FAILURE
   \<and> msg (statusFromError errno_text (sshFxpClosePacket 7 ''1'') (Some (Errno EBADF)))
       = ''bad file descriptor''"
  using statusFromError_translation
    [of errno_text "sshFxpClosePacket 7 ''1''" "''''" "''''" 0 "Errno EBADF" None]
  by (simp add: errno_text_def EBADF_def ENOENT_def EPERM_def EFBIG_def EACCES_def)

section \<open>The dispatcher\<close>

lemma allowedPacketTypes_iff:
  "map_index allowedPacketTypes t \<longleftrightarrow>
     t \<in> {ssh_FXP_INIT, ssh_FXP_OPEN, ssh_FXP_CLOSE, ssh_FXP_WRITE, ssh_FXP_STAT,
          ssh_FXP_LSTAT, ssh_FXP_OPENDIR, ssh_FXP_READDIR, ssh_FXP_SETSTAT, ssh_FXP_REALPATH}"
  by (cases t) (simp_all add: map_index_def allowedPacketTypes_def)

lemma sftpServerWorker_turn_decoded:
  assumes "packet_of_type t = Some (blank, ro)" and "UnmarshalBinary env blank b = Inr pkt"
  shows "sftpServerWorker_turn env svr \<lparr>pktType = t, pktBytes = b\<rparr> =
     (if \<not> map_index allowedPacketTypes t then
        Wrap_result (sendErrorCode env svr pkt ssh_FX_OP_UNSUPPORTED)
          ''failed to send op unsupported response''
      else if \<not> packet_readonly pkt ro \<and> readOnly svr then
        Wrap_result (sendError env svr pkt (Some (Errno EPERM)))
          ''failed to send read only packet response''
      else handlePacket env svr pkt)"
  using assms by (simp add: sftpServerWorker_turn_def)

lemma Wrap_result_sendErrorCode:
  "Wrap_result (sendErrorCode env svr pkt code) m =
     (svr,
      [Sent (StatusPacket \<lparr>status_ID = pkt_id pkt, Code = code, msg = sendErrorCode_msg env code\<rparr>)],
      Return (errors_Wrap_nil
        (sendPacket_result env
           (StatusPacket \<lparr>status_ID = pkt_id pkt, Code = code, msg = sendErrorCode_msg env code\<rparr>)) m))"
  by (simp add: Wrap_result_def sendErrorCode_def sendPacket_def)

lemma Wrap_result_sendError:
  "Wrap_result (sendError env svr pkt err) m =
     (svr, [Sent (StatusPacket (statusFromError (errno_Error env) pkt err))],
      Return (errors_Wrap_nil
        (sendPacket_result env (StatusPacket (statusFromError (errno_Error env) pkt err))) m))"
  by (simp add: Wrap_result_def sendError_def sendPacket_def)

text \<open>
  Claim C1 has a decoded read packet routed to its handler. The worker answers it with
  "operation unsupported": read is not among the allowed packet types.
\<close>

theorem sftpServerWorker_turn_counterexample:
  "sftpServerWorker_turn (world (sshFxpReadPacket 1 ''1'' 0 10)) server_up
     \<lparr>pktType = ssh_FXP_READ, pktBytes = []\<rparr>
   = (server_up,
      [Sent (StatusPacket \<lparr>status_ID = 1, Code = ssh_FX_OP_UNSUPPORTED, msg = []\<rparr>)],
      Return None)"
  by (simp add: sftpServerWorker_turn_def world_def allowedPacketTypes_def map_index_def
      Wrap_result_sendErrorCode errors_Wrap_nil_def)

text \<open>
  Claim C1, amended: a decoded packet of type init, open, close, write, stat, lstat,
  opendir, readdir, setstat or realpath goes to \<open>handlePacket\<close>, unless the server is
  read-only and the packet writes; a decoded packet of type read, fstat, fsetstat,
  mkdir, rmdir, remove, rename, symlink, readlink or extended is answered with
  "operation unsupported", and the server stays as it is; a packet of any other type is
  not decoded, nothing is answered and the worker returns an error.
\<close>

theorem sftpServerWorker_turn_dispatch:
  "(packet_of_type t = Some (blank, ro) \<and> UnmarshalBinary env blank b = Inr pkt
    \<and> t \<in> {ssh_FXP_INIT, ssh_FXP_OPEN, ssh_FXP_CLOSE, ssh_FXP_WRITE, ssh_FXP_STAT,
            ssh_FXP_LSTAT, ssh_FXP_OPENDIR, ssh_FXP_READDIR, ssh_FXP_SETSTAT, ssh_FXP_REALPATH}
    \<and> (packet_readonly pkt ro \<or> \<not> readOnly svr)
    \<longrightarrow> sftpServerWorker_turn env svr \<lparr>pktType = t, pktBytes = b\<rparr> = handlePacket env svr pkt)
   \<and> (packet_of_type t = Some (blank, ro) \<and> UnmarshalBinary env blank b = Inr pkt
    \<and> t \<in> {ssh_FXP_READ, ssh_FXP_FSTAT, ssh_FXP_FSETSTAT, ssh_FXP_MKDIR, ssh_FXP_RMDIR,
            ssh_FXP_REMOVE, ssh_FXP_RENAME, ssh_FXP_SYMLINK, ssh_FXP_READLINK, ssh_FXP_EXTENDED}
    \<longrightarrow> sftpServerWorker_turn env svr \<lparr>pktType = t, pktBytes = b\<rparr> =
         (svr,
          [Sent (StatusPacket \<lparr>status_ID = pkt_id pkt, Code = ssh_FX_OP_UNSUPPORTED,
                               msg = sendErrorCode_msg env ssh_FX_OP_UNSUPPORTED\<rparr>)],
          Return (errors_Wrap_nil
            (sendPacket_result env
               (StatusPacket \<lparr>status_ID = pkt_id pkt, Code = ssh_FX_OP_UNSUPPORTED,
                               msg = sendErrorCode_msg env ssh_FX_OP_UNSUPPORTED\<rparr>))
            ''failed to send op unsupported response'')))
   \<and> sftpServerWorker_turn env svr \<lparr>pktType = ssh_FXP_unlisted x, pktBytes = b\<rparr> =
       (svr, [],
        Return (Some (errors_New (''unhandled packet type: '' @ fxp_String env (ssh_FXP_unlisted x)))))"
proof (intro conjI impI)
  assume a: "packet_of_type t = Some (blank, ro) \<and> UnmarshalBinary env blank b = Inr pkt
    \<and> t \<in> {ssh_FXP_INIT, ssh_FXP_OPEN, ssh_FXP_CLOSE, ssh_FXP_WRITE, ssh_FXP_STAT,
            ssh_FXP_LSTAT, ssh_FXP_OPENDIR, ssh_FXP_READDIR, ssh_FXP_SETSTAT, ssh_FXP_REALPATH}
    \<and> (packet_readonly pkt ro \<or> \<not> readOnly svr)"
  then have "map_index allowedPacketTypes t"
    by (simp only: allowedPacketTypes_iff)
  with a show "sftpServerWorker_turn env svr \<lparr>pktType = t, pktBytes = b\<rparr> = handlePacket env svr pkt"
    by (auto simp: sftpServerWorker_turn_decoded)
next
  assume a: "packet_of_type t = Some (blank, ro) \<and> UnmarshalBinary env blank b = Inr pkt
    \<and> t \<in> {ssh_FXP_READ, ssh_FXP_FSTAT, ssh_FXP_FSETSTAT, ssh_FXP_MKDIR, ssh_FXP_RMDIR,
            ssh_FXP_REMOVE, ssh_FXP_RENAME, ssh_FXP_SYMLINK, ssh_FXP_READLINK, ssh_FXP_EXTENDED}"
  then have "\<not> map_index allowedPacketTypes t"
    unfolding allowedPacketTypes_iff by auto
  with a show "sftpServerWorker_turn env svr \<lparr>pktType = t, pktBytes = b\<rparr> =
         (svr,
          [Sent (StatusPacket \<lparr>status_ID = pkt_id pkt, Code = ssh_FX_OP_UNSUPPORTED,
                               msg = sendErrorCode_msg env ssh_FX_OP_UNSUPPORTED\<rparr>)],
          Return (errors_Wrap_nil
            (sendPacket_result env
               (StatusPacket \<lparr>status_ID = pkt_id pkt, Code = ssh_FX_OP_UNSUPPORTED,
                               msg = sendErrorCode_msg env ssh_FX_OP_UNSUPPORTED\<rparr>))
            ''failed to send op unsupported response''))"
    by (simp add: sftpServerWorker_turn_decoded Wrap_result_sendErrorCode)
next
  show "sftpServerWorker_turn env svr \<lparr>pktType = ssh_FXP_unlisted x, pktBytes = b\<rparr> =
       (svr, [],
        Return (Some (errors_New (''unhandled packet type: '' @ fxp_String env (ssh_FXP_unlisted x)))))"
    by (simp add: sftpServerWorker_turn_def)
qed

text \<open>
  A close packet on the new server goes to its handler, which finds no such handle; a
  readlink packet is answered with "operation unsupported".
\<close>

theorem sftpServerWorker_turn_dispatch_witness:
  "sftpServerWorker_turn (world (sshFxpClosePacket 5 ''1'')) server_up
     \<lparr>pktType = ssh_FXP_CLOSE, pktBytes = []\<rparr>
   = (server_up,
      [Sent (StatusPacket \<lparr>status_ID = 5, Code = ssh_FX_FAILURE, msg = ''bad file descriptor''\<rparr>)],
      Return None)
   \<and> sftpServerWorker_turn (world (sshFxpReadlinkPacket 6 ''/up'')) server_up
     \<lparr>pktType = ssh_FXP_READLINK, pktBytes = []\<rparr>
   = (server_up,
      [Sent (StatusPacket \<lparr>status_ID = 6, Code = ssh_FX_OP_UNSUPPORTED, msg = []\<rparr>)],
      Return None)"
  using sftpServerWorker_turn_dispatch
    [of ssh_FXP_CLOSE "sshFxpClosePacket 0 []" True "world (sshFxpClosePacket 5 ''1'')" "[]"
        "sshFxpClosePacket 5 ''1''" server_up 0]
    sftpServerWorker_turn_dispatch
    [of ssh_FXP_READLINK "sshFxpReadlinkPacket 0 []" True "world (sshFxpReadlinkPacket 6 ''/up'')" "[]"
        "sshFxpReadlinkPacket 6 ''/up''" server_up 0]
  by (simp add: world_def server_up_def closeHandle_def sendError_def sendPacket_def
      statusFromError_def translateErrno_def errno_text_def EACCES_def after_def errors_Wrap_nil_def
      EBADF_def ENOENT_def EPERM_def EFBIG_def)

text \<open>
  Claim C8 has a read-only server answer every mutating packet with "permission
  denied". A remove packet is answered with "operation unsupported": the check of the
  allowed packet types comes first.
\<close>

theorem readOnly_counterexample:
  "readOnly server_ro
   \<and> sftpServerWorker_turn (world (sshFxpRemovePacket 1 ''/up/a.txt'')) server_ro
     \<lparr>pktType = ssh_FXP_REMOVE, pktBytes = []\<rparr>
   = (server_ro,
      [Sent (StatusPacket \<lparr>status_ID = 1, Code = ssh_FX_OP_UNSUPPORTED, msg = []\<rparr>)],
      Return None)"
  by (simp add: sftpServerWorker_turn_def world_def allowedPacketTypes_def map_index_def
      Wrap_result_sendErrorCode errors_Wrap_nil_def server_ro_def)

text \<open>
  Claim C8, amended: a read-only server answers every decoded mutating packet without
  calling its handler: the server, with its handle table and its counter, stays as it
  is, nothing but the one status packet leaves it, and that packet carries
  "permission denied" for write, setstat and an open with the write flag, and
  "operation unsupported" for fsetstat, remove, mkdir, rmdir, rename, symlink and an
  extended packet.
\<close>

theorem readOnly_gate:
  assumes "readOnly svr"
    and "packet_of_type t = Some (blank, ro)"
    and "UnmarshalBinary env blank b = Inr pkt"
    and "packet_type pkt = t"
    and "t \<in> {ssh_FXP_WRITE, ssh_FXP_SETSTAT, ssh_FXP_FSETSTAT, ssh_FXP_REMOVE, ssh_FXP_MKDIR,
              ssh_FXP_RMDIR, ssh_FXP_RENAME, ssh_FXP_SYMLINK}
         \<or> t = ssh_FXP_OPEN \<and> hasPflags pkt [ssh_FXF_WRITE]
         \<or> t = ssh_FXP_EXTENDED \<and> \<not> SpecificPacket_readonly pkt"
  shows "\<exists>st r. sftpServerWorker_turn env svr \<lparr>pktType = t, pktBytes = b\<rparr>
             = (svr, [Sent (StatusPacket st)], Return r)
           \<and> status_ID st = pkt_id pkt
           \<and> Code st = (if t \<in> {ssh_FXP_WRITE, ssh_FXP_SETSTAT, ssh_FXP_OPEN}
                        then ssh_FX_PERMISSION_DENIED else ssh_FX_OP_UNSUPPORTED)"
proof (cases "t \<in> {ssh_FXP_WRITE, ssh_FXP_SETSTAT, ssh_FXP_OPEN}")
  case True
  then have allowed: "map_index allowedPacketTypes t"
    unfolding allowedPacketTypes_iff by auto
  from True assms(2,4,5) have "\<not> packet_readonly pkt ro"
    by (cases pkt) (auto simp: sshFxpOpenPacket_readonly_def)
  with allowed assms(1-3)
  have "sftpServerWorker_turn env svr \<lparr>pktType = t, pktBytes = b\<rparr> =
      Wrap_result (sendError env svr pkt (Some (Errno EPERM)))
        ''failed to send read only packet response''"
    by (simp add: sftpServerWorker_turn_decoded)
  moreover have "Code (statusFromError (errno_Error env) pkt (Some (Errno EPERM)))
      = ssh_FX_PERMISSION_DENIED"
    by (simp add: statusFromError_def translateErrno_def EPERM_def ENOENT_def)
  moreover have "status_ID (statusFromError (errno_Error env) pkt (Some (Errno EPERM))) = pkt_id pkt"
    by (simp add: statusFromError_def)
  ultimately show ?thesis
    using True by (simp add: Wrap_result_sendError)
next
  case False
  with assms(5) have "\<not> map_index allowedPacketTypes t"
    unfolding allowedPacketTypes_iff by auto
  with assms(2,3)
  have "sftpServerWorker_turn env svr \<lparr>pktType = t, pktBytes = b\<rparr> =
      Wrap_result (sendErrorCode env svr pkt ssh_FX_OP_UNSUPPORTED)
        ''failed to send op unsupported response''"
    by (simp add: sftpServerWorker_turn_decoded)
  then show ?thesis
    using False by (simp add: Wrap_result_sendErrorCode)
qed

text \<open>
  An open with the write flag on the read-only server: "permission denied", and the
  handle table and the counter are those of before.
\<close>

theorem readOnly_gate_witness:
  "readOnly server_ro \<and> hasPflags (sshFxpOpenPacket 1 ''/up/a.txt'' 2 0) [ssh_FXF_WRITE]
   \<and> (\<exists>st r. sftpServerWorker_turn (world (sshFxpOpenPacket 1 ''/up/a.txt'' 2 0)) server_ro
              \<lparr>pktType = ssh_FXP_OPEN, pktBytes = []\<rparr>
            = (server_ro, [Sent (StatusPacket st)], Return r)
          \<and> status_ID st = 1 \<and> Code st = ssh_FX_PERMISSION_DENIED)"
  using readOnly_gate
    [of server_ro ssh_FXP_OPEN "sshFxpOpenPacket 0 [] 0 0" True
        "world (sshFxpOpenPacket 1 ''/up/a.txt'' 2 0)" "[]" "sshFxpOpenPacket 1 ''/up/a.txt'' 2 0"]
  by (simp add: world_def server_ro_def server_up_def ssh_FXF_WRITE_def)

section \<open>The handle table\<close>

text \<open>
  Claim C6: for every issued handle, the first close removes it and closes the
  underlying file, and a second close of the same handle fails with "bad handle"
  (\<open>EBADF\<close>, sent as a FAILURE status); the two closes together call the upload
  notifier, when there is one, exactly once with the name of the file if the handle is
  a file handle, and never if it is a directory handle.
\<close>

theorem closeHandle_twice:
  assumes "openFiles svr h = Some f"
  shows "\<exists>svr1.
      closeHandle env svr h =
        (svr1,
         Call_Close f #
           (if uploadNotifier svr \<and> openDirs svr h = None
            then [Call_uploadNotifier (File_Name f)] else []),
         File_Close env f)
      \<and> openFiles svr1 = (openFiles svr)(h := None)
      \<and> openDirs svr1 = (openDirs svr)(h := None)
      \<and> closeHandle env' svr1 h = (svr1, [], Some (Errno EBADF))
      \<and> handlePacket env' svr1 (sshFxpClosePacket i h) =
          (svr1,
           [Sent (StatusPacket \<lparr>status_ID = i, Code = ssh_FX_FAILURE, msg = errno_Error env' EBADF\<rparr>)],
           Return (sendPacket_result env'
             (StatusPacket \<lparr>status_ID = i, Code = ssh_FX_FAILURE, msg = errno_Error env' EBADF\<rparr>)))"
proof (cases "openDirs svr h")
  case None
  define svr1 where "svr1 = svr\<lparr>openFiles := (openFiles svr)(h := None)\<rparr>"
  have first: "closeHandle env svr h =
      (svr1, Call_Close f # (if uploadNotifier svr then [Call_uploadNotifier (File_Name f)] else []),
       File_Close env f)"
    using assms None by (simp add: closeHandle_def svr1_def)
  have gone: "openFiles svr1 h = None"
    by (simp add: svr1_def)
  have dirs: "openDirs svr1 = (openDirs svr)(h := None)"
    using None by (auto simp: svr1_def)
  have second: "closeHandle env' svr1 h = (svr1, [], Some (Errno EBADF))"
    using gone by (simp add: closeHandle_def)
  have status: "statusFromError (errno_Error env') (sshFxpClosePacket i h) (Some (Errno EBADF))
      = \<lparr>status_ID = i, Code = ssh_FX_FAILURE, msg = errno_Error env' EBADF\<rparr>"
    by (simp add: statusFromError_def translateErrno_def EBADF_def ENOENT_def EPERM_def)
  have packet: "handlePacket env' svr1 (sshFxpClosePacket i h) =
      (svr1,
       [Sent (StatusPacket \<lparr>status_ID = i, Code = ssh_FX_FAILURE, msg = errno_Error env' EBADF\<rparr>)],
       Return (sendPacket_result env'
         (StatusPacket \<lparr>status_ID = i, Code = ssh_FX_FAILURE, msg = errno_Error env' EBADF\<rparr>)))"
    by (simp add: second status sendError_def sendPacket_def after_def)
  show ?thesis
    using first dirs second packet None by (intro exI [of _ svr1]) (simp add: svr1_def)
next
  case (Some di)
  define svr1 where
    "svr1 = svr\<lparr>openFiles := (openFiles svr)(h := None), openDirs := (openDirs svr)(h := None)\<rparr>"
  have first: "closeHandle env svr h = (svr1, [Call_Close f], File_Close env f)"
    using assms Some by (simp add: closeHandle_def svr1_def)
  have gone: "openFiles svr1 h = None"
    by (simp add: svr1_def)
  have second: "closeHandle env' svr1 h = (svr1, [], Some (Errno EBADF))"
    using gone by (simp add: closeHandle_def)
  have status: "statusFromError (errno_Error env') (sshFxpClosePacket i h) (Some (Errno EBADF))
      = \<lparr>status_ID = i, Code = ssh_FX_FAILURE, msg = errno_Error env' EBADF\<rparr>"
    by (simp add: statusFromError_def translateErrno_def EBADF_def ENOENT_def EPERM_def)
  have packet: "handlePacket env' svr1 (sshFxpClosePacket i h) =
      (svr1,
       [Sent (StatusPacket \<lparr>status_ID = i, Code = ssh_FX_FAILURE, msg = errno_Error env' EBADF\<rparr>)],
       Return (sendPacket_result env'
         (StatusPacket \<lparr>status_ID = i, Code = ssh_FX_FAILURE, msg = errno_Error env' EBADF\<rparr>)))"
    by (simp add: second status sendError_def sendPacket_def after_def)
  show ?thesis
    using first second packet Some by (intro exI [of _ svr1]) (simp add: svr1_def)
qed

text \<open>Closing the upload \<open>a.txt\<close>: one close of the file, one call of the notifier.\<close>

theorem closeHandle_twice_witness:
  "openFiles server_open ''1'' = Some (File 4 ''a.txt'')
   \<and> (\<exists>svr1. closeHandle (world sshFxInitPacket) server_open ''1'' =
         (svr1, [Call_Close (File 4 ''a.txt''), Call_uploadNotifier ''a.txt''], None)
       \<and> closeHandle (world sshFxInitPacket) svr1 ''1'' = (svr1, [], Some (Errno EBADF)))"
proof -
  have open1: "openFiles server_open ''1'' = Some (File 4 ''a.txt'')"
    by (simp add: server_open_def server_up_def)
  from closeHandle_twice [OF open1, of "world sshFxInitPacket" "world sshFxInitPacket" 0]
  show ?thesis
    using open1 by (auto simp: server_open_def server_up_def world_def)
qed

section \<open>write and the file-size limit\<close>

text \<open>
  Claim C4 (the write fails with "file too large" exactly when a limit is set and
  offset plus length is above it, and then nothing is written) fails on the code where
  the 64-bit sum wraps around: with a limit of 10 bytes, a write of 2 bytes at offset
  \<open>2^63 - 1\<close> passes the check, \<open>WriteAt\<close> is called, and the status sent is that of
  what \<open>WriteAt\<close> returns.
\<close>

theorem write_limit_overflow:
  "handlePacket env server_open (sshFxpWritePacket 2 ''1'' 0x7FFFFFFFFFFFFFFF [104, 105]) =
     (server_open,
      [Call_WriteAt (File 4 ''a.txt'') [104, 105] 0x7FFFFFFFFFFFFFFF,
       Sent (StatusPacket (statusFromError (errno_Error env)
               (sshFxpWritePacket 2 ''1'' 0x7FFFFFFFFFFFFFFF [104, 105])
               (File_WriteAt env (File 4 ''a.txt'') [104, 105] 0x7FFFFFFFFFFFFFFF)))],
      Return (sendPacket_result env
        (StatusPacket (statusFromError (errno_Error env)
               (sshFxpWritePacket 2 ''1'' 0x7FFFFFFFFFFFFFFF [104, 105])
               (File_WriteAt env (File 4 ''a.txt'') [104, 105] 0x7FFFFFFFFFFFFFFF)))))"
  by (simp add: server_open_def server_up_def getHandle_def sendError_def sendPacket_def after_def)

text \<open>In the world where \<open>WriteAt\<close> succeeds the two bytes are written and the answer is OK.\<close>

theorem write_limit_overflow_witness:
  "handlePacket (world sshFxInitPacket) server_open
      (sshFxpWritePacket 2 ''1'' 0x7FFFFFFFFFFFFFFF [104, 105]) =
     (server_open,
      [Call_WriteAt (File 4 ''a.txt'') [104, 105] 0x7FFFFFFFFFFFFFFF,
       Sent (StatusPacket \<lparr>status_ID = 2, Code = ssh_FX_OK, msg = []\<rparr>)],
      Return None)"
  using write_limit_overflow [of "world sshFxInitPacket"]
  by (simp add: world_def statusFromError_def)

text \<open>
  Where the sum does not wrap around (offset plus length below \<open>2^63\<close>) the check is
  the one of the claim: "file too large" without a call of \<open>WriteAt\<close> exactly when the
  limit is positive and offset plus length is above it, and the write at the offset
  otherwise.
\<close>

lemma sint_sum_in_range:
  fixes off :: "64 word"
  assumes "unat off + n < 2 ^ 63"
  shows "sint (off + of_nat n) = int (unat off) + int n"
proof -
  have u: "unat (off + of_nat n) = unat off + n"
    using assms by (simp add: unat_word_ariths unat_of_nat)
  have "uint (off + of_nat n) = int (unat (off + of_nat n))"
    by simp
  also have "\<dots> = int (unat off) + int n"
    by (simp only: u of_nat_add)
  finally have v: "uint (off + of_nat n) = int (unat off) + int n" .
  have "int (unat off) + int n < 2 ^ 63"
    using assms by (metis of_nat_add of_nat_less_numeral_power_cancel_iff)
  moreover have "- (2 ^ 63) \<le> int (unat off) + int n"
    by (rule order_trans [of _ 0]) simp_all
  ultimately have "signed_take_bit 63 (int (unat off) + int n) = int (unat off) + int n"
    by (intro signed_take_bit_int_eq_self)
  then show ?thesis
    by (simp add: sint_uint v)
qed

lemma write_limit_in_range:
  assumes "openFiles s h = Some f" and "unat off + length bytes < 2 ^ 63"
  shows "handlePacket env s (sshFxpWritePacket i h off bytes) =
     (if 0 < sint (fileSizeLimit s) \<and> int (unat off) + int (length bytes) > sint (fileSizeLimit s)
      then sendError env s (sshFxpWritePacket i h off bytes) (Some (Errno EFBIG))
      else after [Call_WriteAt f bytes off]
             (sendError env s (sshFxpWritePacket i h off bytes) (File_WriteAt env f bytes off)))"
  using assms by (simp add: getHandle_def sint_sum_in_range)

section \<open>The end of Serve\<close>

lemma Serve_close_open_files_eq:
  assumes "set order \<subseteq> dom (openFiles svr)"
  shows "Serve_close_open_files svr order =
     concat (map (\<lambda>h. [Fprintf_leftOpen h (File_Name (the (openFiles svr h))),
                        Call_Close (the (openFiles svr h))]) order)"
  using assms by (induction order) auto

lemma Serve_close_open_files_no_notifier:
  "Call_uploadNotifier n \<notin> set (Serve_close_open_files svr order)"
  by (induction order) (auto split: option.splits)

lemma Serve_close_open_files_all:
  assumes "openFiles svr h = Some f" and "h \<in> set order"
  shows "Fprintf_leftOpen h (File_Name f) \<in> set (Serve_close_open_files svr order)
     \<and> Call_Close f \<in> set (Serve_close_open_files svr order)"
  using assms by (induction order) (auto split: option.splits)

lemma Serve_close_open_files_length:
  assumes "set order \<subseteq> dom (openFiles svr)"
  shows "length (Serve_close_open_files svr order) = 2 * length order"
  using assms by (induction order) auto

text \<open>
  Claim C9 has the upload notifier called for the files closed at shutdown. With the
  upload \<open>a.txt\<close> still open and a notifier configured, \<open>Serve\<close> writes the line to the
  debug stream and closes the file; the notifier is not called.
\<close>

theorem Serve_counterexample:
  "uploadNotifier server_open
   \<and> Serve (world sshFxInitPacket) server_open [] io_EOF [''1''] =
       (server_open,
        [Fprintf_leftOpen ''1'' ''a.txt'', Call_Close (File 4 ''a.txt'')],
        Return (Some io_EOF))
   \<and> Call_uploadNotifier ''a.txt''
       \<notin> set (fst (snd (Serve (world sshFxInitPacket) server_open [] io_EOF [''1''])))"
  by (simp add: Serve_def server_open_def server_up_def)

text \<open>
  Claim C9, amended: when the worker has returned, \<open>Serve\<close> goes through the handle
  table (each handle once, in an order of its own), and for every handle still open it
  writes one line with the handle and the name of the file to the debug stream and
  closes the file; it does nothing else, so the upload notifier is not called for
  these files, the table itself stays as it is, and whatever the closes return,
  \<open>Serve\<close> returns the error of \<open>recvPacket\<close>.
\<close>

theorem Serve_shutdown:
  assumes "sftpServerWorker env svr received = (svr', evs, Return werr)"
    and "distinct order"
    and "set order = dom (openFiles svr')"
  shows "\<exists>closing.
      Serve env svr received err order =
        (svr', evs @ (if werr \<noteq> None then [Call_conn_Close] else []) @ closing, Return (Some err))
      \<and> closing = concat (map (\<lambda>h. [Fprintf_leftOpen h (File_Name (the (openFiles svr' h))),
                                     Call_Close (the (openFiles svr' h))]) order)
      \<and> length closing = 2 * card (dom (openFiles svr'))
      \<and> (\<forall>h f. openFiles svr' h = Some f \<longrightarrow>
            Fprintf_leftOpen h (File_Name f) \<in> set closing \<and> Call_Close f \<in> set closing)
      \<and> (\<forall>n. Call_uploadNotifier n \<notin> set closing)"
proof -
  let ?closing = "Serve_close_open_files svr' order"
  have sub: "set order \<subseteq> dom (openFiles svr')"
    using assms(3) by simp
  have "Serve env svr received err order =
      (svr', evs @ (if werr \<noteq> None then [Call_conn_Close] else []) @ ?closing, Return (Some err))"
    using assms(1) by (simp add: Serve_def)
  moreover have "length ?closing = 2 * card (dom (openFiles svr'))"
    using Serve_close_open_files_length [OF sub] distinct_card [OF assms(2)] assms(3) by simp
  moreover have "\<forall>h f. openFiles svr' h = Some f \<longrightarrow>
      Fprintf_leftOpen h (File_Name f) \<in> set ?closing \<and> Call_Close f \<in> set ?closing"
    using Serve_close_open_files_all assms(3) by (metis domI)
  ultimately show ?thesis
    using Serve_close_open_files_eq [OF sub] Serve_close_open_files_no_notifier
    by (intro exI [of _ ?closing]) blast
qed

text \<open>The shutdown with the upload \<open>a.txt\<close> still open, after no packet at all.\<close>

theorem Serve_shutdown_witness:
  "sftpServerWorker (world sshFxInitPacket) server_open [] = (server_open, [], Return None)
   \<and> distinct [''1''] \<and> set [''1''] = dom (openFiles server_open)
   \<and> (\<exists>closing.
        Serve (world sshFxInitPacket) server_open [] io_EOF [''1''] =
          (server_open, closing, Return (Some io_EOF))
        \<and> closing = [Fprintf_leftOpen ''1'' ''a.txt'', Call_Close (File 4 ''a.txt'')])"
proof -
  have w: "sftpServerWorker (world sshFxInitPacket) server_open [] = (server_open, [], Return None)"
    by simp
  have d: "distinct [''1'']"
    by simp
  have s: "set [''1''] = dom (openFiles server_open)"
    by (simp add: server_open_def server_up_def)
  from Serve_shutdown [OF w d s, of io_EOF] show ?thesis
    using w d s by (auto simp: server_open_def server_up_def)
qed

section \<open>open for writing\<close>

lemma hasPflags_single: "hasPflags p [f] \<longleftrightarrow> Pflags p AND f \<noteq> 0"
  by simp

lemma slice_from_append: "slice_from (pre @ rest) (length pre) = Some rest"
  by (simp add: slice_from_def)

text \<open>The handler on an open with the write flag: the first branch is never taken.\<close>

lemma respond_write:
  assumes "hasPflags (sshFxpOpenPacket i path pf fl) [ssh_FXF_WRITE]"
  shows "sshFxpOpenPacket_respond env svr (sshFxpOpenPacket i path pf fl) =
     (if hasPflags (sshFxpOpenPacket i path pf fl) [ssh_FXF_APPEND] then
        sendErrorCode env svr (sshFxpOpenPacket i path pf fl) ssh_FX_OP_UNSUPPORTED
      else if \<not> strings_HasPrefix path (upload_prefix svr) then
        sendErrorCode env svr (sshFxpOpenPacket i path pf fl) ssh_FX_NO_SUCH_PATH
      else
        (case slice_from path (length (upload_prefix svr)) of
           None \<Rightarrow> (svr, [], Panic)
         | Some fileName \<Rightarrow>
             if strings_ContainsRune fileName CHR ''/'' then
               sendErrorCode env svr (sshFxpOpenPacket i path pf fl) ssh_FX_NO_SUCH_PATH
             else
               (case fileNameMapper svr of
                  None \<Rightarrow>
                    after [Call_os_Create fileName]
                      (sshFxpOpenPacket_respond_end env svr (sshFxpOpenPacket i path pf fl) []
                         fileName (os_Create env fileName))
                | Some mapper \<Rightarrow>
                    (case mapper fileName of
                       (fileName', ok, err) \<Rightarrow>
                         if err \<noteq> None then
                           after [Call_fileNameMapper fileName]
                             (sendErrorCode env svr (sshFxpOpenPacket i path pf fl) ssh_FX_FAILURE)
                         else if \<not> ok then
                           after [Call_fileNameMapper fileName]
                             (sendErrorCode env svr (sshFxpOpenPacket i path pf fl)
                                ssh_FX_INVALID_FILENAME)
                         else
                           after [Call_fileNameMapper fileName, Call_os_Create fileName']
                             (sshFxpOpenPacket_respond_end env svr
                                (sshFxpOpenPacket i path pf fl) [] fileName'
                                (os_Create env fileName'))))))"
proof -
  from assms have "pf AND ssh_FXF_WRITE \<noteq> 0"
    by (simp split: if_splits)
  then show ?thesis
    by (simp add: sshFxpOpenPacket_respond_def sshFxpOpenPacket_readonly_def upload_prefix_def
        Let_def)
qed

text \<open>The path is not an immediate child of the upload directory.\<close>

lemma respond_write_no_child:
  assumes "hasPflags (sshFxpOpenPacket i path pf fl) [ssh_FXF_WRITE]"
    and "\<not> hasPflags (sshFxpOpenPacket i path pf fl) [ssh_FXF_APPEND]"
    and "\<nexists>fileName. path = upload_prefix svr @ fileName \<and> CHR ''/'' \<notin> set fileName"
  shows "sshFxpOpenPacket_respond env svr (sshFxpOpenPacket i path pf fl) =
     sendErrorCode env svr (sshFxpOpenPacket i path pf fl) ssh_FX_NO_SUCH_PATH"
proof (cases "strings_HasPrefix path (upload_prefix svr)")
  case True
  then obtain rest where rest: "path = upload_prefix svr @ rest"
    by (auto simp: HasPrefix_iff)
  with assms(3) have "CHR ''/'' \<in> set rest"
    by blast
  with rest True assms(1,2) show ?thesis
    by (simp add: respond_write slice_from_append strings_ContainsRune_def del: hasPflags.simps)
next
  case False
  with assms(1,2) show ?thesis
    by (simp add: respond_write del: hasPflags.simps)
qed

text \<open>The path is an immediate child: the mapper is asked, if there is one.\<close>

lemma respond_write_child:
  assumes "hasPflags (sshFxpOpenPacket i path pf fl) [ssh_FXF_WRITE]"
    and "\<not> hasPflags (sshFxpOpenPacket i path pf fl) [ssh_FXF_APPEND]"
    and "path = upload_prefix svr @ fileName" and "CHR ''/'' \<notin> set fileName"
  shows "sshFxpOpenPacket_respond env svr (sshFxpOpenPacket i path pf fl) =
     (case fileNameMapper svr of
        None \<Rightarrow>
          after [Call_os_Create fileName]
            (sshFxpOpenPacket_respond_end env svr (sshFxpOpenPacket i path pf fl) []
               fileName (os_Create env fileName))
      | Some mapper \<Rightarrow>
          (case mapper fileName of
             (fileName', ok, err) \<Rightarrow>
               if err \<noteq> None then
                 after [Call_fileNameMapper fileName]
                   (sendErrorCode env svr (sshFxpOpenPacket i path pf fl) ssh_FX_FAILURE)
               else if \<not> ok then
                 after [Call_fileNameMapper fileName]
                   (sendErrorCode env svr (sshFxpOpenPacket i path pf fl) ssh_FX_INVALID_FILENAME)
               else
                 after [Call_fileNameMapper fileName, Call_os_Create fileName']
                   (sshFxpOpenPacket_respond_end env svr (sshFxpOpenPacket i path pf fl) []
                      fileName' (os_Create env fileName'))))"
proof -
  have "strings_HasPrefix (upload_prefix svr @ fileName) (upload_prefix svr)"
    by (auto simp: HasPrefix_iff)
  with assms(1,2,4) show ?thesis
    unfolding assms(3)
    by (simp add: respond_write slice_from_append strings_ContainsRune_def del: hasPflags.simps)
qed

text \<open>The events before the answer, when the mapper accepts.\<close>

lemma respond_write_accepted:
  assumes "hasPflags (sshFxpOpenPacket i path pf fl) [ssh_FXF_WRITE]"
    and "\<not> hasPflags (sshFxpOpenPacket i path pf fl) [ssh_FXF_APPEND]"
    and "path = upload_prefix svr @ fileName" and "CHR ''/'' \<notin> set fileName"
    and "accepts svr fileName target"
  shows "sshFxpOpenPacket_respond env svr (sshFxpOpenPacket i path pf fl) =
     after ((if fileNameMapper svr = None then [] else [Call_fileNameMapper fileName])
            @ [Call_os_Create target])
       (sshFxpOpenPacket_respond_end env svr (sshFxpOpenPacket i path pf fl) [] target
          (os_Create env target))"
  using assms(5) unfolding respond_write_child [OF assms(1-4)]
  by (auto simp: accepts_def split: option.splits)

lemma respond_end_created:
  "sshFxpOpenPacket_respond_end env svr (sshFxpOpenPacket i path pf fl) [] target (Inr d) =
     (svr\<lparr>handleCount := handleCount svr + 1,
          openFiles := (openFiles svr)(strconv_Itoa (sint (handleCount svr + 1)) \<mapsto> File d target)\<rparr>,
      [Sent (sshFxpHandlePacket i (strconv_Itoa (sint (handleCount svr + 1))))],
      Return (sendPacket_result env
        (sshFxpHandlePacket i (strconv_Itoa (sint (handleCount svr + 1))))))"
  by (simp add: sshFxpOpenPacket_respond_end_def nextHandle_def sendPacket_def Let_def)

lemma respond_end_failed:
  "sshFxpOpenPacket_respond_end env svr p dirName target (Inl e) = sendError env svr p (Some e)"
  by (simp add: sshFxpOpenPacket_respond_end_def)

lemma events_sendErrorCode:
  "fst (snd (sendErrorCode env svr p code)) =
     [Sent (StatusPacket \<lparr>status_ID = pkt_id p, Code = code, msg = sendErrorCode_msg env code\<rparr>)]"
  by (simp add: sendErrorCode_def sendPacket_def)

lemma events_sendError:
  "fst (snd (sendError env svr p err)) =
     [Sent (StatusPacket (statusFromError (errno_Error env) p err))]"
  by (simp add: sendError_def sendPacket_def)

lemma events_after: "fst (snd (after evs r)) = evs @ fst (snd r)"
  by (simp add: after_def split: prod.splits)

text \<open>When does the answer to an open with the write flag carry a handle?\<close>

lemma respond_write_handle_iff:
  assumes w: "hasPflags (sshFxpOpenPacket i path pf fl) [ssh_FXF_WRITE]"
  shows "(\<exists>h. Sent (sshFxpHandlePacket i h)
              \<in> set (fst (snd (sshFxpOpenPacket_respond env svr (sshFxpOpenPacket i path pf fl)))))
     \<longleftrightarrow> (\<not> hasPflags (sshFxpOpenPacket i path pf fl) [ssh_FXF_APPEND]
          \<and> (\<exists>fileName target d. path = upload_prefix svr @ fileName
                \<and> CHR ''/'' \<notin> set fileName \<and> accepts svr fileName target
                \<and> os_Create env target = Inr d))"
    (is "?sent \<longleftrightarrow> ?ok")
proof
  assume ?ok
  then obtain fileName target d where
    a: "\<not> hasPflags (sshFxpOpenPacket i path pf fl) [ssh_FXF_APPEND]"
    and c: "path = upload_prefix svr @ fileName" "CHR ''/'' \<notin> set fileName"
    and m: "accepts svr fileName target" and d: "os_Create env target = Inr d"
    by blast
  show ?sent
    unfolding respond_write_accepted [OF w a c m] d respond_end_created events_after
    by auto
next
  assume sent: ?sent
  let ?p = "sshFxpOpenPacket i path pf fl"
  have a: "\<not> hasPflags ?p [ssh_FXF_APPEND]"
  proof
    assume "hasPflags ?p [ssh_FXF_APPEND]"
    with w have "sshFxpOpenPacket_respond env svr ?p = sendErrorCode env svr ?p ssh_FX_OP_UNSUPPORTED"
      by (simp add: respond_write del: hasPflags.simps)
    with sent show False
      by (simp add: events_sendErrorCode)
  qed
  have "\<exists>fileName. path = upload_prefix svr @ fileName \<and> CHR ''/'' \<notin> set fileName"
  proof (rule ccontr)
    assume "\<nexists>fileName. path = upload_prefix svr @ fileName \<and> CHR ''/'' \<notin> set fileName"
    from respond_write_no_child [OF w a this] sent show False
      by (simp add: events_sendErrorCode)
  qed
  then obtain fileName where c: "path = upload_prefix svr @ fileName" "CHR ''/'' \<notin> set fileName"
    by blast
  note child = respond_write_child [OF w a c]
  show ?ok
  proof (cases "fileNameMapper svr")
    case None
    then have m: "accepts svr fileName fileName"
      by (simp add: accepts_def)
    show ?thesis
    proof (cases "os_Create env fileName")
      case (Inl e)
      with sent None show ?thesis
        by (simp add: child respond_end_failed events_after events_sendError)
    next
      case (Inr d)
      with a c m show ?thesis by blast
    qed
  next
    case (Some mapper)
    obtain fileName' ok err where r: "mapper fileName = (fileName', ok, err)"
      by (cases "mapper fileName") auto
    show ?thesis
    proof (cases "err = None \<and> ok")
      case True
      with Some r have m: "accepts svr fileName fileName'"
        by (simp add: accepts_def)
      show ?thesis
      proof (cases "os_Create env fileName'")
        case (Inl e)
        with sent Some r True show ?thesis
          by (simp add: child respond_end_failed events_after events_sendError)
      next
        case (Inr d)
        with a c m show ?thesis by blast
      qed
    next
      case False
      with sent Some r show ?thesis
        by (auto simp: child events_after events_sendErrorCode split: if_splits)
    qed
  qed
qed

text \<open>
  Claim C3 has the handle allocated whenever the path is an immediate child of the
  upload directory and the mapper accepts the name. The open of \<open>/up/\<close> with the write
  flag strips the prefix to the empty name, which has no slash; the file cannot be
  created, the answer is the status of that error, and no handle is allocated.
\<close>

theorem sshFxpOpenPacket_respond_counterexample:
  "hasPflags (sshFxpOpenPacket 1 ''/up/'' 2 0) [ssh_FXF_WRITE]
   \<and> ''/up/'' = upload_prefix server_up @ [] \<and> accepts server_up [] []
   \<and> sshFxpOpenPacket_respond (world sshFxInitPacket) server_up (sshFxpOpenPacket 1 ''/up/'' 2 0) =
       (server_up,
        [Call_os_Create [],
         Sent (StatusPacket \<lparr>status_ID = 1, Code = ssh_FX_NO_SUCH_FILE,
                             msg = ''open : no such file or directory''\<rparr>)],
        Return None)"
  by (simp add: sshFxpOpenPacket_respond_def sshFxpOpenPacket_readonly_def
      sshFxpOpenPacket_respond_end_def isUploadDirOrAncestor_def strings_HasPrefix_def
      strings_ContainsRune_def slice_from_def upload_prefix_def accepts_def
      ssh_FXF_WRITE_def ssh_FXF_APPEND_def world_def server_up_def after_def
      sendError_def sendPacket_def statusFromError_def translateErrno_def errno_text_def EACCES_def
      ENOENT_def EPERM_def)

text \<open>
  Claim C3, amended. An open with the write flag is answered, in this order: with
  "operation unsupported" if the append flag is set; with "no such path" if the path
  is not the upload prefix followed by a name without a slash; with a generic failure
  if the filename mapper returns an error; with "invalid filename" if it rejects the
  name; else the file is created under the accepted name, and the answer is the status
  of the error if the creation fails, and a new handle if it succeeds. So a handle is
  allocated if and only if the append flag is not set, the path is an immediate child
  of the upload directory, the mapper (if any) accepts the name and the file can be
  created. In every other case the server stays as it is. An open without the write
  flag on a path that is not the upload directory or an ancestor is answered with
  "operation unsupported".
\<close>

theorem sshFxpOpenPacket_respond_write:
  assumes "p = sshFxpOpenPacket i path pf fl"
  shows
   "(hasPflags p [ssh_FXF_WRITE] \<and> hasPflags p [ssh_FXF_APPEND] \<longrightarrow>
       sshFxpOpenPacket_respond env svr p = sendErrorCode env svr p ssh_FX_OP_UNSUPPORTED)
    \<and> (hasPflags p [ssh_FXF_WRITE] \<and> \<not> hasPflags p [ssh_FXF_APPEND]
        \<and> (\<nexists>fileName. path = upload_prefix svr @ fileName \<and> CHR ''/'' \<notin> set fileName) \<longrightarrow>
       sshFxpOpenPacket_respond env svr p = sendErrorCode env svr p ssh_FX_NO_SUCH_PATH)
    \<and> (hasPflags p [ssh_FXF_WRITE] \<and> \<not> hasPflags p [ssh_FXF_APPEND]
        \<and> path = upload_prefix svr @ fileName \<and> CHR ''/'' \<notin> set fileName
        \<and> fileNameMapper svr = Some mapper \<and> mapper fileName = (fileName', ok, Some e) \<longrightarrow>
       sshFxpOpenPacket_respond env svr p =
         after [Call_fileNameMapper fileName] (sendErrorCode env svr p ssh_FX_FAILURE))
    \<and> (hasPflags p [ssh_FXF_WRITE] \<and> \<not> hasPflags p [ssh_FXF_APPEND]
        \<and> path = upload_prefix svr @ fileName \<and> CHR ''/'' \<notin> set fileName
        \<and> fileNameMapper svr = Some mapper \<and> mapper fileName = (fileName', False, None) \<longrightarrow>
       sshFxpOpenPacket_respond env svr p =
         after [Call_fileNameMapper fileName] (sendErrorCode env svr p ssh_FX_INVALID_FILENAME))
    \<and> (hasPflags p [ssh_FXF_WRITE] \<and> \<not> hasPflags p [ssh_FXF_APPEND]
        \<and> path = upload_prefix svr @ fileName \<and> CHR ''/'' \<notin> set fileName
        \<and> accepts svr fileName target \<and> os_Create env target = Inl e \<longrightarrow>
       sshFxpOpenPacket_respond env svr p =
         after ((if fileNameMapper svr = None then [] else [Call_fileNameMapper fileName])
                @ [Call_os_Create target])
           (sendError env svr p (Some e)))
    \<and> (hasPflags p [ssh_FXF_WRITE] \<and> \<not> hasPflags p [ssh_FXF_APPEND]
        \<and> path = upload_prefix svr @ fileName \<and> CHR ''/'' \<notin> set fileName
        \<and> accepts svr fileName target \<and> os_Create env target = Inr d \<longrightarrow>
       sshFxpOpenPacket_respond env svr p =
         (svr\<lparr>handleCount := handleCount svr + 1,
              openFiles := (openFiles svr)(strconv_Itoa (sint (handleCount svr + 1)) \<mapsto> File d target)\<rparr>,
          (if fileNameMapper svr = None then [] else [Call_fileNameMapper fileName])
            @ [Call_os_Create target,
               Sent (sshFxpHandlePacket i (strconv_Itoa (sint (handleCount svr + 1))))],
          Return (sendPacket_result env
            (sshFxpHandlePacket i (strconv_Itoa (sint (handleCount svr + 1)))))))
    \<and> (hasPflags p [ssh_FXF_WRITE] \<longrightarrow>
         ((\<exists>h. Sent (sshFxpHandlePacket i h) \<in> set (fst (snd (sshFxpOpenPacket_respond env svr p))))
          \<longleftrightarrow> (\<not> hasPflags p [ssh_FXF_APPEND]
               \<and> (\<exists>fileName target d. path = upload_prefix svr @ fileName
                     \<and> CHR ''/'' \<notin> set fileName \<and> accepts svr fileName target
                     \<and> os_Create env target = Inr d))))
    \<and> (\<not> hasPflags p [ssh_FXF_WRITE] \<and> \<not> isUploadDirOrAncestor svr (path_Clean env path) \<longrightarrow>
       sshFxpOpenPacket_respond env svr p = sendErrorCode env svr p ssh_FX_OP_UNSUPPORTED)"
proof -
  have unsupported: "sshFxpOpenPacket_respond env svr p = sendErrorCode env svr p ssh_FX_OP_UNSUPPORTED"
    if "hasPflags p [ssh_FXF_WRITE]" "hasPflags p [ssh_FXF_APPEND]"
    using that unfolding assms by (simp add: respond_write del: hasPflags.simps)
  have no_child: "sshFxpOpenPacket_respond env svr p = sendErrorCode env svr p ssh_FX_NO_SUCH_PATH"
    if "hasPflags p [ssh_FXF_WRITE]" "\<not> hasPflags p [ssh_FXF_APPEND]"
      "\<nexists>fileName. path = upload_prefix svr @ fileName \<and> CHR ''/'' \<notin> set fileName"
    using that unfolding assms by (rule respond_write_no_child)
  have mapper_error: "sshFxpOpenPacket_respond env svr p =
      after [Call_fileNameMapper fileName] (sendErrorCode env svr p ssh_FX_FAILURE)"
    if "hasPflags p [ssh_FXF_WRITE]" "\<not> hasPflags p [ssh_FXF_APPEND]"
      "path = upload_prefix svr @ fileName" "CHR ''/'' \<notin> set fileName"
      "fileNameMapper svr = Some mapper" "mapper fileName = (fileName', ok, Some e)"
    using that(5,6) respond_write_child [OF that(1,2,3,4) [unfolded assms], of env]
    unfolding assms by simp
  have mapper_rejects: "sshFxpOpenPacket_respond env svr p =
      after [Call_fileNameMapper fileName] (sendErrorCode env svr p ssh_FX_INVALID_FILENAME)"
    if "hasPflags p [ssh_FXF_WRITE]" "\<not> hasPflags p [ssh_FXF_APPEND]"
      "path = upload_prefix svr @ fileName" "CHR ''/'' \<notin> set fileName"
      "fileNameMapper svr = Some mapper" "mapper fileName = (fileName', False, None)"
    using that(5,6) respond_write_child [OF that(1,2,3,4) [unfolded assms], of env]
    unfolding assms by simp
  have create_fails: "sshFxpOpenPacket_respond env svr p =
      after ((if fileNameMapper svr = None then [] else [Call_fileNameMapper fileName])
             @ [Call_os_Create target])
        (sendError env svr p (Some e))"
    if "hasPflags p [ssh_FXF_WRITE]" "\<not> hasPflags p [ssh_FXF_APPEND]"
      "path = upload_prefix svr @ fileName" "CHR ''/'' \<notin> set fileName"
      "accepts svr fileName target" "os_Create env target = Inl e"
    using that(6) respond_write_accepted [OF that(1,2,3,4,5) [unfolded assms], of env]
    unfolding assms by (simp add: respond_end_failed)
  have created: "sshFxpOpenPacket_respond env svr p =
      (svr\<lparr>handleCount := handleCount svr + 1,
           openFiles := (openFiles svr)(strconv_Itoa (sint (handleCount svr + 1)) \<mapsto> File d target)\<rparr>,
       (if fileNameMapper svr = None then [] else [Call_fileNameMapper fileName])
         @ [Call_os_Create target,
            Sent (sshFxpHandlePacket i (strconv_Itoa (sint (handleCount svr + 1))))],
       Return (sendPacket_result env
         (sshFxpHandlePacket i (strconv_Itoa (sint (handleCount svr + 1))))))"
    if "hasPflags p [ssh_FXF_WRITE]" "\<not> hasPflags p [ssh_FXF_APPEND]"
      "path = upload_prefix svr @ fileName" "CHR ''/'' \<notin> set fileName"
      "accepts svr fileName target" "os_Create env target = Inr d"
    using that(6) respond_write_accepted [OF that(1,2,3,4,5) [unfolded assms], of env]
    unfolding assms by (simp add: respond_end_created after_def)
  have handle_iff: "(\<exists>h. Sent (sshFxpHandlePacket i h) \<in> set (fst (snd (sshFxpOpenPacket_respond env svr p))))
       \<longleftrightarrow> (\<not> hasPflags p [ssh_FXF_APPEND]
            \<and> (\<exists>fileName target d. path = upload_prefix svr @ fileName
                  \<and> CHR ''/'' \<notin> set fileName \<and> accepts svr fileName target
                  \<and> os_Create env target = Inr d))"
    if "hasPflags p [ssh_FXF_WRITE]"
    using that unfolding assms by (rule respond_write_handle_iff)
  have read_only: "sshFxpOpenPacket_respond env svr p = sendErrorCode env svr p ssh_FX_OP_UNSUPPORTED"
    if "\<not> hasPflags p [ssh_FXF_WRITE]" "\<not> isUploadDirOrAncestor svr (path_Clean env path)"
    using that unfolding assms by (simp add: sshFxpOpenPacket_respond_def)
  show ?thesis
    apply (intro conjI impI)
    subgoal using unsupported by blast
    subgoal using no_child by blast
    subgoal using mapper_error by blast
    subgoal using mapper_rejects by blast
    subgoal using create_fails by blast
    subgoal using created by blast
    subgoal using handle_iff by blast
    subgoal using read_only by blast
    done
qed

text \<open>The upload \<open>/up/a.txt\<close> on the new server: the file \<open>a.txt\<close> is created, handle \<open>1\<close>.\<close>

theorem sshFxpOpenPacket_respond_write_witness:
  "hasPflags (sshFxpOpenPacket 1 ''/up/a.txt'' 2 0) [ssh_FXF_WRITE]
   \<and> \<not> hasPflags (sshFxpOpenPacket 1 ''/up/a.txt'' 2 0) [ssh_FXF_APPEND]
   \<and> ''/up/a.txt'' = upload_prefix server_up @ ''a.txt'' \<and> CHR ''/'' \<notin> set ''a.txt''
   \<and> accepts server_up ''a.txt'' ''a.txt''
   \<and> os_Create (world sshFxInitPacket) ''a.txt'' = Inr 4
   \<and> sshFxpOpenPacket_respond (world sshFxInitPacket) server_up (sshFxpOpenPacket 1 ''/up/a.txt'' 2 0) =
       (server_up\<lparr>handleCount := 1, openFiles := [''1'' \<mapsto> File 4 ''a.txt'']\<rparr>,
        [Call_os_Create ''a.txt'', Sent (sshFxpHandlePacket 1 ''1'')],
        Return None)"
proof -
  have pre: "hasPflags (sshFxpOpenPacket 1 ''/up/a.txt'' 2 0) [ssh_FXF_WRITE]"
    "\<not> hasPflags (sshFxpOpenPacket 1 ''/up/a.txt'' 2 0) [ssh_FXF_APPEND]"
    "''/up/a.txt'' = upload_prefix server_up @ ''a.txt''" "CHR ''/'' \<notin> set ''a.txt''"
    "accepts server_up ''a.txt'' ''a.txt''"
    "os_Create (world sshFxInitPacket) ''a.txt'' = Inr 4"
    by (simp_all add: ssh_FXF_WRITE_def ssh_FXF_APPEND_def upload_prefix_def accepts_def
        server_up_def world_def)
  have one: "strconv_Itoa (sint (handleCount server_up + 1)) = ''1''"
    by (simp add: server_up_def strconv_Itoa_def)
  from sshFxpOpenPacket_respond_write
    [OF refl, of 1 "''/up/a.txt''" 2 0 "world sshFxInitPacket" server_up "''a.txt''"
       "\<lambda>n. (n, True, None)" "''a.txt''" True io_EOF "''a.txt''" 4]
  have "sshFxpOpenPacket_respond (world sshFxInitPacket) server_up (sshFxpOpenPacket 1 ''/up/a.txt'' 2 0) =
       (server_up\<lparr>handleCount := handleCount server_up + 1,
           openFiles := (openFiles server_up)
             (strconv_Itoa (sint (handleCount server_up + 1)) \<mapsto> File 4 ''a.txt'')\<rparr>,
        (if fileNameMapper server_up = None then [] else [Call_fileNameMapper ''a.txt''])
          @ [Call_os_Create ''a.txt'',
             Sent (sshFxpHandlePacket 1 (strconv_Itoa (sint (handleCount server_up + 1))))],
        Return (sendPacket_result (world sshFxInitPacket)
          (sshFxpHandlePacket 1 (strconv_Itoa (sint (handleCount server_up + 1))))))"
    using pre by blast
  then have "sshFxpOpenPacket_respond (world sshFxInitPacket) server_up (sshFxpOpenPacket 1 ''/up/a.txt'' 2 0) =
       (server_up\<lparr>handleCount := 1, openFiles := [''1'' \<mapsto> File 4 ''a.txt'']\<rparr>,
        [Call_os_Create ''a.txt'', Sent (sshFxpHandlePacket 1 ''1'')],
        Return None)"
    unfolding one by (simp add: server_up_def world_def)
  with pre show ?thesis
    by blast
qed

section \<open>The path of the created file\<close>

text \<open>
  Claim C10 has the path given to \<open>os.Create\<close> free of any directory component. With
  a filename mapper that puts the uploads under \<open>/srv/incoming\<close>, the upload
  \<open>/up/a.txt\<close> is created as \<open>/srv/incoming/a.txt\<close>.
\<close>

theorem create_path_counterexample:
  "sshFxpOpenPacket_respond (world sshFxInitPacket) server_mapper (sshFxpOpenPacket 1 ''/up/a.txt'' 2 0) =
     (server_mapper\<lparr>handleCount := 1, openFiles := [''1'' \<mapsto> File 4 ''/srv/incoming/a.txt'']\<rparr>,
      [Call_fileNameMapper ''a.txt'', Call_os_Create ''/srv/incoming/a.txt'',
       Sent (sshFxpHandlePacket 1 ''1'')],
      Return None)
   \<and> CHR ''/'' \<in> set ''/srv/incoming/a.txt''"
  by (simp add: sshFxpOpenPacket_respond_def sshFxpOpenPacket_readonly_def
      sshFxpOpenPacket_respond_end_def nextHandle_def strings_HasPrefix_def
      strings_ContainsRune_def slice_from_def strconv_Itoa_def
      ssh_FXF_WRITE_def ssh_FXF_APPEND_def world_def server_mapper_def server_up_def after_def
      sendPacket_def Let_def)

text \<open>
  Claim C10, amended: for every open with the write flag that passes all checks (no
  append flag, the path is the upload prefix followed by a name without a slash, the
  filename mapper, if any, accepts the name), exactly one file is created, and the path
  given to \<open>os.Create\<close> is the name that is left of the client's path when the upload
  prefix is stripped or, with a mapper, what the mapper returns for that name. It is
  also the name of the file behind the new handle. Without a mapper this path has no
  slash and is not the path the client sent, so the file is created in the working
  directory of the process and not under the upload directory.
\<close>

theorem create_path:
  assumes "p = sshFxpOpenPacket i path pf fl"
    and "hasPflags p [ssh_FXF_WRITE]" and "\<not> hasPflags p [ssh_FXF_APPEND]"
    and "path = upload_prefix svr @ fileName" and "CHR ''/'' \<notin> set fileName"
    and "accepts svr fileName target"
  shows "(\<exists>answer. fst (snd (sshFxpOpenPacket_respond env svr p)) =
            (if fileNameMapper svr = None then [] else [Call_fileNameMapper fileName])
            @ [Call_os_Create target, Sent answer])
     \<and> (\<forall>d. os_Create env target = Inr d \<longrightarrow>
           openFiles (fst (sshFxpOpenPacket_respond env svr p))
             (strconv_Itoa (sint (handleCount svr + 1))) = Some (File d target))
     \<and> (fileNameMapper svr = None \<longrightarrow>
           target = fileName \<and> CHR ''/'' \<notin> set target \<and> target \<noteq> path)
     \<and> (\<forall>mapper. fileNameMapper svr = Some mapper \<longrightarrow> target = fst (mapper fileName))"
proof -
  note r = respond_write_accepted [OF assms(2,3,4,5,6) [unfolded assms(1)], of env]
  have events: "\<exists>answer. fst (snd (sshFxpOpenPacket_respond env svr p)) =
            (if fileNameMapper svr = None then [] else [Call_fileNameMapper fileName])
            @ [Call_os_Create target, Sent answer]"
  proof (cases "os_Create env target")
    case (Inl e)
    then show ?thesis
      unfolding assms(1) r by (simp add: respond_end_failed events_after events_sendError)
  next
    case (Inr d)
    then show ?thesis
      unfolding assms(1) r by (simp add: respond_end_created events_after)
  qed
  have behind: "openFiles (fst (sshFxpOpenPacket_respond env svr p))
             (strconv_Itoa (sint (handleCount svr + 1))) = Some (File d target)"
    if "os_Create env target = Inr d" for d
    using that unfolding assms(1) r by (simp add: respond_end_created after_def)
  have "upload_prefix svr \<noteq> []"
    by (simp add: upload_prefix_def)
  then have shorter: "fileName \<noteq> path"
    using assms(4) by simp
  have plain: "target = fileName \<and> CHR ''/'' \<notin> set target \<and> target \<noteq> path"
    if "fileNameMapper svr = None"
    using that assms(5,6) shorter by (simp add: accepts_def)
  have mapped: "target = fst (mapper fileName)" if "fileNameMapper svr = Some mapper" for mapper
    using that assms(6) by (simp add: accepts_def)
  show ?thesis
    using events behind plain mapped by blast
qed

text \<open>The upload \<open>/up/a.txt\<close> on the new server: the file created is \<open>a.txt\<close>.\<close>

theorem create_path_witness:
  "hasPflags (sshFxpOpenPacket 1 ''/up/a.txt'' 2 0) [ssh_FXF_WRITE]
   \<and> \<not> hasPflags (sshFxpOpenPacket 1 ''/up/a.txt'' 2 0) [ssh_FXF_APPEND]
   \<and> ''/up/a.txt'' = upload_prefix server_up @ ''a.txt'' \<and> CHR ''/'' \<notin> set ''a.txt''
   \<and> accepts server_up ''a.txt'' ''a.txt''
   \<and> (\<exists>answer. fst (snd (sshFxpOpenPacket_respond (world sshFxInitPacket) server_up
                            (sshFxpOpenPacket 1 ''/up/a.txt'' 2 0))) =
          [Call_os_Create ''a.txt'', Sent answer])"
proof -
  have pre: "hasPflags (sshFxpOpenPacket 1 ''/up/a.txt'' 2 0) [ssh_FXF_WRITE]"
    "\<not> hasPflags (sshFxpOpenPacket 1 ''/up/a.txt'' 2 0) [ssh_FXF_APPEND]"
    "''/up/a.txt'' = upload_prefix server_up @ ''a.txt''" "CHR ''/'' \<notin> set ''a.txt''"
    "accepts server_up ''a.txt'' ''a.txt''"
    by (simp_all add: ssh_FXF_WRITE_def ssh_FXF_APPEND_def upload_prefix_def accepts_def
        server_up_def)
  from create_path [OF refl pre, of "world sshFxInitPacket"]
  have "\<exists>answer. fst (snd (sshFxpOpenPacket_respond (world sshFxInitPacket) server_up
                            (sshFxpOpenPacket 1 ''/up/a.txt'' 2 0))) =
          (if fileNameMapper server_up = None then [] else [Call_fileNameMapper ''a.txt''])
          @ [Call_os_Create ''a.txt'', Sent answer]"
    by (rule conjunct1)
  then have "\<exists>answer. fst (snd (sshFxpOpenPacket_respond (world sshFxInitPacket) server_up
                            (sshFxpOpenPacket 1 ''/up/a.txt'' 2 0))) =
          [Call_os_Create ''a.txt'', Sent answer]"
    by (simp add: server_up_def)
  with pre show ?thesis
    by blast
qed

section \<open>readdir on the virtual directories\<close>

lemma HasPrefix_slash: "strings_HasPrefix (c # cs) ''/'' \<longleftrightarrow> c = CHR ''/''"
  by (simp add: strings_HasPrefix_def)

lemma strings_Index_slash:
  "strings_Index s ''/'' =
     (if CHR ''/'' \<in> set s then int (length (takeWhile (\<lambda>c. c \<noteq> CHR ''/'') s)) else - 1)"
  by (induction s) (auto simp: HasPrefix_slash Let_def)

text \<open>The name that readdir cuts out of the rest of the upload path: all before the first slash.\<close>

lemma child_of_rest:
  "(if strings_Index rest ''/'' \<noteq> - 1
    then slice_to rest (nat (strings_Index rest ''/'')) else Some rest)
     = Some (takeWhile (\<lambda>c. c \<noteq> CHR ''/'') rest)"
proof (cases "CHR ''/'' \<in> set rest")
  case True
  then show ?thesis
    by (simp add: strings_Index_slash slice_to_def length_takeWhile_le takeWhile_eq_take [symmetric])
next
  case False
  then have whole: "takeWhile (\<lambda>c. c \<noteq> CHR ''/'') rest = rest"
    by (induction rest) auto
  from False have none: "strings_Index rest ''/'' = - 1"
    by (simp add: strings_Index_slash)
  show ?thesis
    unfolding none whole by simp
qed

lemma segment_split:
  "\<exists>more. rest = takeWhile (\<lambda>c. c \<noteq> CHR ''/'') rest @ more \<and> (more = [] \<or> hd more = CHR ''/'')"
proof (intro exI conjI)
  show "rest = takeWhile (\<lambda>c. c \<noteq> CHR ''/'') rest @ dropWhile (\<lambda>c. c \<noteq> CHR ''/'') rest"
    by simp
  show "dropWhile (\<lambda>c. c \<noteq> CHR ''/'') rest = [] \<or> hd (dropWhile (\<lambda>c. c \<noteq> CHR ''/'') rest) = CHR ''/''"
    using hd_dropWhile [of "\<lambda>c. c \<noteq> CHR ''/''" rest] by auto
qed

lemma segment_no_slash: "CHR ''/'' \<notin> set (takeWhile (\<lambda>c. c \<noteq> CHR ''/'') rest)"
  by (auto dest: set_takeWhileD)

text \<open>Where the rest of the upload path begins, for an ancestor \<open>d\<close> of the upload directory.\<close>

lemma ancestor_rest:
  assumes "isUploadDirOrAncestor svr d" and "d \<noteq> uploadPath svr"
    and "take 1 (uploadPath svr) = ''/''"
  shows "slice_from (uploadPath svr) (if d = ''/'' then 1 else length d + 1)
           = Some (drop (if d = ''/'' then 1 else length d + 1) (uploadPath svr))
     \<and> uploadPath svr = (if d = ''/'' then [] else d) @ ''/''
           @ drop (if d = ''/'' then 1 else length d + 1) (uploadPath svr)"
proof (cases "d = ''/''")
  case True
  from assms(3) have "uploadPath svr \<noteq> []"
    by auto
  then have "1 \<le> length (uploadPath svr)"
    by (cases "uploadPath svr") auto
  moreover have "uploadPath svr = ''/'' @ drop 1 (uploadPath svr)"
    using assms(3) append_take_drop_id [of 1 "uploadPath svr"] by metis
  ultimately show ?thesis
    using True by (simp add: slice_from_def)
next
  case False
  with assms(1,2) obtain rest where rest: "uploadPath svr = d @ ''/'' @ rest"
    by (auto simp: ancestor_iff HasPrefix_iff)
  then have "drop (length d + 1) (uploadPath svr) = rest"
    by simp
  with rest False show ?thesis
    by (simp add: slice_from_def)
qed

text \<open>The first readdir on the handle of an ancestor.\<close>

lemma readdir_first:
  assumes "openFiles svr h = Some f" and "readdirHook svr = Some hook"
    and "openDirs svr h = Some \<lparr>name = d, read = False\<rparr>"
    and "isUploadDirOrAncestor svr d" and "d \<noteq> uploadPath svr"
    and "take 1 (uploadPath svr) = ''/''"
  shows "sshFxpReaddirPacket_respond env svr (sshFxpReaddirPacket j h) =
     sshFxpReaddirPacket_respond_end env
       (svr\<lparr>openDirs := (openDirs svr)(h \<mapsto> \<lparr>name = d, read = True\<rparr>)\<rparr>)
       (sshFxpReaddirPacket j h) []
       [\<lparr>fileInfo_name =
            takeWhile (\<lambda>c. c \<noteq> CHR ''/'')
              (drop (if d = ''/'' then 1 else length d + 1) (uploadPath svr)),
          fileInfo_mode = ModeDir_0755, fileInfo_mtime = time_Now env\<rparr>]
       None"
  using assms ancestor_rest [OF assms(4,5,6)]
  by (simp add: sshFxpReaddirPacket_respond_def getHandle_def getHandleDirInfo_def child_of_rest
      Let_def del: strings_Index.simps)

text \<open>Every later readdir on it.\<close>

lemma readdir_again:
  assumes "openFiles svr h = Some f" and "readdirHook svr = Some hook"
    and "openDirs svr h = Some \<lparr>name = d, read = True\<rparr>"
    and "isUploadDirOrAncestor svr d" and "d \<noteq> uploadPath svr"
  shows "sshFxpReaddirPacket_respond env svr (sshFxpReaddirPacket j h) =
     (svr, [Sent (StatusPacket \<lparr>status_ID = j, Code = ssh_FX_EOF, msg = ''EOF''\<rparr>)],
      Return (sendPacket_result env
        (StatusPacket \<lparr>status_ID = j, Code = ssh_FX_EOF, msg = ''EOF''\<rparr>)))"
  using assms
  by (simp add: sshFxpReaddirPacket_respond_def getHandle_def getHandleDirInfo_def
      sshFxpReaddirPacket_respond_end_def sendError_def sendPacket_def statusFromError_def)

text \<open>readdir on the handle of the upload directory itself.\<close>

lemma readdir_upload_dir:
  assumes "openFiles svr h = Some f" and "readdirHook svr = Some hook"
    and "openDirs svr h = Some di" and "name di = uploadPath svr"
  shows "sshFxpReaddirPacket_respond env svr (sshFxpReaddirPacket j h) =
     after [Call_readdirHook]
       (sshFxpReaddirPacket_respond_end env svr (sshFxpReaddirPacket j h) [] (fst hook) (snd hook))"
  using assms
  by (simp add: sshFxpReaddirPacket_respond_def getHandle_def getHandleDirInfo_def)

text \<open>No readdir takes a handle from the table or sets the flag of a handle back.\<close>

lemma respond_end_server:
  "fst (sshFxpReaddirPacket_respond_end env svr p dirname dirents err) = svr"
  by (simp add: sshFxpReaddirPacket_respond_end_def sendError_def sendPacket_def)

lemma sendError_server: "fst (sendError env svr p err) = svr"
  by (simp add: sendError_def sendPacket_def)

lemma after_server: "fst (after evs r) = fst r"
  by (simp add: after_def split: prod.splits)

lemma readdir_server:
  "fst (sshFxpReaddirPacket_respond env svr (sshFxpReaddirPacket j h)) = svr
   \<or> (\<exists>dirInfo. openDirs svr h = Some dirInfo
         \<and> fst (sshFxpReaddirPacket_respond env svr (sshFxpReaddirPacket j h))
            = svr\<lparr>openDirs := (openDirs svr)(h \<mapsto> dirInfo\<lparr>read := True\<rparr>)\<rparr>)"
proof (cases "openFiles svr h")
  case None
  then show ?thesis
    by (simp add: sshFxpReaddirPacket_respond_def getHandle_def sendError_server)
next
  case f: (Some f)
  show ?thesis
  proof (cases "readdirHook svr")
    case None
    with f show ?thesis
      by (simp add: sshFxpReaddirPacket_respond_def getHandle_def after_server respond_end_server)
  next
    case hook: (Some hook)
    show ?thesis
    proof (cases "openDirs svr h")
      case None
      with f hook show ?thesis
        by (simp add: sshFxpReaddirPacket_respond_def getHandle_def getHandleDirInfo_def
            sendError_server)
    next
      case (Some dirInfo)
      with f hook show ?thesis
        by (simp add: sshFxpReaddirPacket_respond_def getHandle_def getHandleDirInfo_def
            sendError_server after_server respond_end_server Let_def child_of_rest
            split: option.splits del: strings_Index.simps)
    qed
  qed
qed

lemma readdir_flag_stays:
  assumes "openDirs svr h' = Some di" and "read di"
  shows "\<exists>di'. openDirs (fst (sshFxpReaddirPacket_respond env svr (sshFxpReaddirPacket j h))) h'
            = Some di' \<and> read di' \<and> name di' = name di"
  using readdir_server [of env svr j h] assms by (cases "h = h'") auto

text \<open>The open for reading of an ancestor of the upload directory.\<close>

lemma open_ancestor:
  assumes "\<not> hasPflags (sshFxpOpenPacket i path pf fl) [ssh_FXF_WRITE]"
    and "isUploadDirOrAncestor svr (path_Clean env path)" and "path_Clean env path \<noteq> []"
    and "os_Open env ''/dev/null'' = Inr d"
  shows "sshFxpOpenPacket_respond env svr (sshFxpOpenPacket i path pf fl) =
     (svr\<lparr>handleCount := handleCount svr + 1,
          openFiles := (openFiles svr)
            (strconv_Itoa (sint (handleCount svr + 1)) \<mapsto> File d ''/dev/null''),
          openDirs := (openDirs svr)
            (strconv_Itoa (sint (handleCount svr + 1)) \<mapsto> \<lparr>name = path_Clean env path, read = False\<rparr>)\<rparr>,
      [Call_os_Open ''/dev/null''] @ (if opendirHook svr then [Call_opendirHook] else [])
        @ [Sent (sshFxpHandlePacket i (strconv_Itoa (sint (handleCount svr + 1))))],
      Return (sendPacket_result env
        (sshFxpHandlePacket i (strconv_Itoa (sint (handleCount svr + 1))))))"
  using assms
  by (simp add: sshFxpOpenPacket_respond_def sshFxpOpenPacket_readonly_def
      sshFxpOpenPacket_respond_end_def nextHandle_def sendPacket_def after_def Let_def
      del: hasPflags.simps)

text \<open>
  Where the upload path is absolute, the code lists the virtual directories as it
  should. With a directory-listing hook configured, take a handle opened for reading
  on a path whose cleaned form \<open>d\<close> is an ancestor of the upload directory and not the
  upload directory itself (\<open>/dev/null\<close> being there to open). The new handle has the
  flag \<open>read\<close> unset. The
  first readdir on it returns exactly one entry, a directory whose name is the next
  segment of the upload path after \<open>d\<close>, and sets the flag; every further readdir
  returns the end of the stream and leaves the server as it is. No readdir, on any
  server and any handle, sets a flag back that was set. A readdir on a handle whose
  path is the upload directory itself answers with what the hook returns.
\<close>

lemma readdir_virtual_directory:
  fixes svr :: Server and env env1 env2 :: env and path :: string and dn :: nat
  defines "h \<equiv> strconv_Itoa (sint (handleCount svr + 1))"
  defines "d \<equiv> path_Clean env path"
  defines "svr1 \<equiv> svr\<lparr>handleCount := handleCount svr + 1,
                        openFiles := (openFiles svr)(h \<mapsto> File dn ''/dev/null''),
                        openDirs := (openDirs svr)(h \<mapsto> \<lparr>name = d, read = False\<rparr>)\<rparr>"
  defines "svr2 \<equiv> svr1\<lparr>openDirs := (openDirs svr1)(h \<mapsto> \<lparr>name = d, read = True\<rparr>)\<rparr>"
  assumes "readdirHook svr = Some hook"
    and "\<not> hasPflags (sshFxpOpenPacket i path pf fl) [ssh_FXF_WRITE]"
    and "isUploadDirOrAncestor svr d" and "d \<noteq> uploadPath svr" and "d \<noteq> []"
    and "take 1 (uploadPath svr) = ''/''"
    and "os_Open env ''/dev/null'' = Inr dn"
  shows "fst (sshFxpOpenPacket_respond env svr (sshFxpOpenPacket i path pf fl)) = svr1
     \<and> last (fst (snd (sshFxpOpenPacket_respond env svr (sshFxpOpenPacket i path pf fl))))
         = Sent (sshFxpHandlePacket i h)
     \<and> (\<exists>seg more.
           uploadPath svr = (if d = ''/'' then [] else d) @ ''/'' @ seg @ more
           \<and> CHR ''/'' \<notin> set seg \<and> (more = [] \<or> hd more = CHR ''/'')
           \<and> sshFxpReaddirPacket_respond env1 svr1 (sshFxpReaddirPacket j h) =
               (svr2,
                [Sent (sshFxpNamePacket j
                   [\<lparr>Name = seg,
                     LongName = runLs env1 []
                       \<lparr>fileInfo_name = seg, fileInfo_mode = ModeDir_0755,
                        fileInfo_mtime = time_Now env1\<rparr>,
                     NameAttr_Attrs = FileInfoAttrs
                       \<lparr>fileInfo_name = seg, fileInfo_mode = ModeDir_0755,
                        fileInfo_mtime = time_Now env1\<rparr>\<rparr>])],
                Return (sendPacket_result env1 (sshFxpNamePacket j
                   [\<lparr>Name = seg,
                     LongName = runLs env1 []
                       \<lparr>fileInfo_name = seg, fileInfo_mode = ModeDir_0755,
                        fileInfo_mtime = time_Now env1\<rparr>,
                     NameAttr_Attrs = FileInfoAttrs
                       \<lparr>fileInfo_name = seg, fileInfo_mode = ModeDir_0755,
                        fileInfo_mtime = time_Now env1\<rparr>\<rparr>]))))
     \<and> sshFxpReaddirPacket_respond env2 svr2 (sshFxpReaddirPacket k h) =
         (svr2, [Sent (StatusPacket \<lparr>status_ID = k, Code = ssh_FX_EOF, msg = ''EOF''\<rparr>)],
          Return (sendPacket_result env2
            (StatusPacket \<lparr>status_ID = k, Code = ssh_FX_EOF, msg = ''EOF''\<rparr>)))
     \<and> ((\<lambda>s. fst (sshFxpReaddirPacket_respond env2 s (sshFxpReaddirPacket k h))) ^^ n) svr2 = svr2
     \<and> (\<forall>e s q h' di. openDirs s h' = Some di \<and> read di \<longrightarrow>
           (\<exists>di'. openDirs (fst (sshFxpReaddirPacket_respond e s (sshFxpReaddirPacket q h'))) h' = Some di'
                  \<and> read di' \<and> name di' = name di))
     \<and> (\<forall>e s q h' f di hk. readdirHook s = Some hk \<and> openFiles s h' = Some f
            \<and> openDirs s h' = Some di \<and> name di = uploadPath s \<longrightarrow>
           sshFxpReaddirPacket_respond e s (sshFxpReaddirPacket q h') =
             after [Call_readdirHook]
               (sshFxpReaddirPacket_respond_end e s (sshFxpReaddirPacket q h') [] (fst hk) (snd hk)))"
proof -
  have opened: "sshFxpOpenPacket_respond env svr (sshFxpOpenPacket i path pf fl) =
      (svr1,
       [Call_os_Open ''/dev/null''] @ (if opendirHook svr then [Call_opendirHook] else [])
         @ [Sent (sshFxpHandlePacket i h)],
       Return (sendPacket_result env (sshFxpHandlePacket i h)))"
    using open_ancestor [OF assms(6) assms(7) [unfolded d_def] assms(9) [unfolded d_def] assms(11)]
    by (simp add: svr1_def h_def d_def)
  have s1: "openFiles svr1 h = Some (File dn ''/dev/null'')" "readdirHook svr1 = Some hook"
    "openDirs svr1 h = Some \<lparr>name = d, read = False\<rparr>" "isUploadDirOrAncestor svr1 d"
    "d \<noteq> uploadPath svr1" "take 1 (uploadPath svr1) = ''/''"
    using assms(5,7,8,10) by (simp_all add: svr1_def isUploadDirOrAncestor_def)
  have s2: "openFiles svr2 h = Some (File dn ''/dev/null'')" "readdirHook svr2 = Some hook"
    "openDirs svr2 h = Some \<lparr>name = d, read = True\<rparr>" "isUploadDirOrAncestor svr2 d"
    "d \<noteq> uploadPath svr2"
    using s1 by (simp_all add: svr2_def isUploadDirOrAncestor_def)
  define rest where "rest = drop (if d = ''/'' then 1 else length d + 1) (uploadPath svr)"
  define seg where "seg = takeWhile (\<lambda>c. c \<noteq> CHR ''/'') rest"
  obtain more where more: "rest = seg @ more" "more = [] \<or> hd more = CHR ''/''"
    using segment_split [of rest] unfolding seg_def by blast
  have "uploadPath svr = (if d = ''/'' then [] else d) @ ''/'' @ rest"
    using ancestor_rest [OF assms(7,8,10)] unfolding rest_def by blast
  then have path: "uploadPath svr = (if d = ''/'' then [] else d) @ ''/'' @ seg @ more"
    using more(1) by simp
  have no_slash: "CHR ''/'' \<notin> set seg"
    unfolding seg_def by (rule segment_no_slash)
  have "uploadPath svr1 = uploadPath svr"
    by (simp add: svr1_def)
  then have first: "sshFxpReaddirPacket_respond env1 svr1 (sshFxpReaddirPacket j h) =
      sshFxpReaddirPacket_respond_end env1 svr2 (sshFxpReaddirPacket j h) []
        [\<lparr>fileInfo_name = seg, fileInfo_mode = ModeDir_0755, fileInfo_mtime = time_Now env1\<rparr>] None"
    using readdir_first [OF s1, of env1 j] by (simp add: svr2_def seg_def rest_def)
  have again: "sshFxpReaddirPacket_respond e svr2 (sshFxpReaddirPacket q h) =
      (svr2, [Sent (StatusPacket \<lparr>status_ID = q, Code = ssh_FX_EOF, msg = ''EOF''\<rparr>)],
       Return (sendPacket_result e (StatusPacket \<lparr>status_ID = q, Code = ssh_FX_EOF, msg = ''EOF''\<rparr>)))"
    for e q
    by (rule readdir_again [OF s2])
  have forever: "((\<lambda>s. fst (sshFxpReaddirPacket_respond env2 s (sshFxpReaddirPacket k h))) ^^ n) svr2 = svr2"
    by (induction n) (simp_all add: again)
  have stays: "\<forall>e s q h' di. openDirs s h' = Some di \<and> read di \<longrightarrow>
      (\<exists>di'. openDirs (fst (sshFxpReaddirPacket_respond e s (sshFxpReaddirPacket q h'))) h' = Some di'
             \<and> read di' \<and> name di' = name di)"
    using readdir_flag_stays by blast
  have upload: "\<forall>e s q h' f di hk. readdirHook s = Some hk \<and> openFiles s h' = Some f
       \<and> openDirs s h' = Some di \<and> name di = uploadPath s \<longrightarrow>
      sshFxpReaddirPacket_respond e s (sshFxpReaddirPacket q h') =
        after [Call_readdirHook]
          (sshFxpReaddirPacket_respond_end e s (sshFxpReaddirPacket q h') [] (fst hk) (snd hk))"
    using readdir_upload_dir by blast
  show ?thesis
    apply (intro conjI)
    subgoal using opened by simp
    subgoal using opened by simp
    subgoal
      apply (rule exI [of _ seg], rule exI [of _ more])
      using path no_slash more(2) first
      by (simp add: sshFxpReaddirPacket_respond_end_def sendPacket_def)
    subgoal by (rule again)
    subgoal by (rule forever)
    subgoal by (rule stays)
    subgoal by (rule upload)
    done
qed

text \<open>
  The upload directory is \<open>/up\<close>, and \<open>/\<close> is opened for reading: the new handle is
  \<open>1\<close>, the first readdir on it lists the one directory \<open>up\<close>, the second returns the
  end of the stream.
\<close>

lemma readdir_virtual_directory_example:
  "\<not> hasPflags (sshFxpOpenPacket 1 ''/'' ssh_FXF_READ 0) [ssh_FXF_WRITE]
   \<and> isUploadDirOrAncestor server_hook ''/'' \<and> ''/'' \<noteq> uploadPath server_hook
   \<and> take 1 (uploadPath server_hook) = ''/''
   \<and> os_Open (world sshFxInitPacket) ''/dev/null'' = Inr 3
   \<and> last (fst (snd (sshFxpOpenPacket_respond (world sshFxInitPacket) server_hook
                        (sshFxpOpenPacket 1 ''/'' ssh_FXF_READ 0))))
       = Sent (sshFxpHandlePacket 1 ''1'')
   \<and> (\<exists>svr1 svr2.
        fst (sshFxpOpenPacket_respond (world sshFxInitPacket) server_hook
               (sshFxpOpenPacket 1 ''/'' ssh_FXF_READ 0)) = svr1
        \<and> sshFxpReaddirPacket_respond (world sshFxInitPacket) svr1 (sshFxpReaddirPacket 2 ''1'') =
            (svr2,
             [Sent (sshFxpNamePacket 2
                [\<lparr>Name = ''up'', LongName = ''up'',
                  NameAttr_Attrs = FileInfoAttrs
                    \<lparr>fileInfo_name = ''up'', fileInfo_mode = ModeDir_0755, fileInfo_mtime = 0\<rparr>\<rparr>])],
             Return None)
        \<and> sshFxpReaddirPacket_respond (world sshFxInitPacket) svr2 (sshFxpReaddirPacket 3 ''1'') =
            (svr2, [Sent (StatusPacket \<lparr>status_ID = 3, Code = ssh_FX_EOF, msg = ''EOF''\<rparr>)],
             Return None))"
proof -
  have pre: "readdirHook server_hook
        = Some ([\<lparr>fileInfo_name = ''a.txt'', fileInfo_mode = 420, fileInfo_mtime = 0\<rparr>], None)"
    "\<not> hasPflags (sshFxpOpenPacket 1 ''/'' ssh_FXF_READ 0) [ssh_FXF_WRITE]"
    "isUploadDirOrAncestor server_hook (path_Clean (world sshFxInitPacket) ''/'')"
    "path_Clean (world sshFxInitPacket) ''/'' \<noteq> uploadPath server_hook"
    "path_Clean (world sshFxInitPacket) ''/'' \<noteq> []"
    "take 1 (uploadPath server_hook) = ''/''"
    "os_Open (world sshFxInitPacket) ''/dev/null'' = Inr 3"
    by (simp_all add: server_hook_def server_up_def world_def isUploadDirOrAncestor_def
        ssh_FXF_READ_def ssh_FXF_WRITE_def)
  have clean: "path_Clean (world sshFxInitPacket) ''/'' = ''/''"
    and one: "strconv_Itoa (sint (handleCount server_hook + 1)) = ''1''"
    and up: "uploadPath server_hook = ''/up''"
    and now: "time_Now (world sshFxInitPacket) = 0"
    and ls: "\<And>info. runLs (world sshFxInitPacket) [] info = fileInfo_name info"
    and sent: "\<And>r. sendPacket_result (world sshFxInitPacket) r = None"
    by (simp_all add: world_def server_hook_def server_up_def strconv_Itoa_def)
  note inst = readdir_virtual_directory [OF pre, of "world sshFxInitPacket" 2 "world sshFxInitPacket" 3 0,
      unfolded clean one up now ls sent]
  from inst obtain seg more where
    seg: "''/up'' = (if ''/'' = ''/'' then [] else ''/'') @ ''/'' @ seg @ more"
      "CHR ''/'' \<notin> set seg" "more = [] \<or> hd more = CHR ''/''"
    and first: "sshFxpReaddirPacket_respond (world sshFxInitPacket)
         (server_hook\<lparr>handleCount := handleCount server_hook + 1,
             openFiles := (openFiles server_hook)(''1'' \<mapsto> File 3 ''/dev/null''),
             openDirs := (openDirs server_hook)(''1'' \<mapsto> \<lparr>name = ''/'', read = False\<rparr>)\<rparr>)
         (sshFxpReaddirPacket 2 ''1'') =
        (server_hook\<lparr>handleCount := handleCount server_hook + 1,
             openFiles := (openFiles server_hook)(''1'' \<mapsto> File 3 ''/dev/null''),
             openDirs := (openDirs server_hook)(''1'' \<mapsto> \<lparr>name = ''/'', read = False\<rparr>)\<rparr>
           \<lparr>openDirs := (openDirs
               (server_hook\<lparr>handleCount := handleCount server_hook + 1,
                  openFiles := (openFiles server_hook)(''1'' \<mapsto> File 3 ''/dev/null''),
                  openDirs := (openDirs server_hook)(''1'' \<mapsto> \<lparr>name = ''/'', read = False\<rparr>)\<rparr>))
               (''1'' \<mapsto> \<lparr>name = ''/'', read = True\<rparr>)\<rparr>,
         [Sent (sshFxpNamePacket 2
            [\<lparr>Name = seg, LongName = seg,
              NameAttr_Attrs = FileInfoAttrs
                \<lparr>fileInfo_name = seg, fileInfo_mode = ModeDir_0755, fileInfo_mtime = 0\<rparr>\<rparr>])],
         Return None)"
    by auto
  from seg(1) have split: "''up'' = seg @ more"
    by simp
  have "more = []"
  proof (rule ccontr)
    assume some: "more \<noteq> []"
    then have "hd more \<in> set more"
      by simp
    then have "hd more \<in> set (seg @ more)"
      by simp
    then have "hd more \<in> set ''up''"
      by (simp only: split)
    with seg(3) some show False
      by auto
  qed
  with split have "seg = ''up''"
    by simp
  with first inst pre(2,6,7) show ?thesis
    by (auto simp: isUploadDirOrAncestor_def up)
qed

text \<open>
  Claim C7 (the first readdir on a handle opened for reading on an ancestor of the
  upload directory returns exactly one entry, named by the next path segment toward the
  upload directory) fails on the code where the upload path is relative, which
  \<open>NewServer\<close> allows. With the upload directory \<open>up\<close> the path \<open>/\<close> qualifies as
  an ancestor and is not the upload directory; it is opened for reading under the
  handle \<open>1\<close>, and the first readdir cuts the first character off the upload path and
  lists a directory \<open>p\<close>, which is no segment of \<open>up\<close>.
\<close>

theorem readdir_relative_upload_path:
  "readdirHook server_relative \<noteq> None
   \<and> isUploadDirOrAncestor server_relative ''/'' \<and> ''/'' \<noteq> uploadPath server_relative
   \<and> sshFxpOpenPacket_respond (world sshFxInitPacket) server_relative
         (sshFxpOpenPacket i ''/'' ssh_FXF_READ 0) =
       (server_relative
          \<lparr>handleCount := 1,
           openFiles := [''1'' \<mapsto> File 3 ''/dev/null''],
           openDirs := [''1'' \<mapsto> \<lparr>name = ''/'', read = False\<rparr>]\<rparr>,
        [Call_os_Open ''/dev/null'', Sent (sshFxpHandlePacket i ''1'')],
        Return None)
   \<and> sshFxpReaddirPacket_respond (world sshFxInitPacket)
         (server_relative
            \<lparr>handleCount := 1,
             openFiles := [''1'' \<mapsto> File 3 ''/dev/null''],
             openDirs := [''1'' \<mapsto> \<lparr>name = ''/'', read = False\<rparr>]\<rparr>)
         (sshFxpReaddirPacket j ''1'') =
       (server_relative
          \<lparr>handleCount := 1,
           openFiles := [''1'' \<mapsto> File 3 ''/dev/null''],
           openDirs := [''1'' \<mapsto> \<lparr>name = ''/'', read = True\<rparr>]\<rparr>,
        [Sent (sshFxpNamePacket j
           [\<lparr>Name = ''p'', LongName = ''p'',
             NameAttr_Attrs = FileInfoAttrs
               \<lparr>fileInfo_name = ''p'', fileInfo_mode = ModeDir_0755, fileInfo_mtime = 0\<rparr>\<rparr>])],
        Return None)"
proof -
  have hook: "readdirHook server_relative \<noteq> None"
    by (simp add: server_relative_def server_hook_def)
  have ancestor: "isUploadDirOrAncestor server_relative ''/''"
    "''/'' \<noteq> uploadPath server_relative"
    by (simp_all add: isUploadDirOrAncestor_def server_relative_def)
  have opened: "sshFxpOpenPacket_respond (world sshFxInitPacket) server_relative
         (sshFxpOpenPacket i ''/'' ssh_FXF_READ 0) =
       (server_relative
          \<lparr>handleCount := 1,
           openFiles := [''1'' \<mapsto> File 3 ''/dev/null''],
           openDirs := [''1'' \<mapsto> \<lparr>name = ''/'', read = False\<rparr>]\<rparr>,
        [Call_os_Open ''/dev/null'', Sent (sshFxpHandlePacket i ''1'')],
        Return None)"
    by (simp add: sshFxpOpenPacket_respond_def sshFxpOpenPacket_readonly_def
        sshFxpOpenPacket_respond_end_def nextHandle_def isUploadDirOrAncestor_def
        strconv_Itoa_def ssh_FXF_READ_def ssh_FXF_WRITE_def world_def server_relative_def
        server_hook_def server_up_def after_def sendPacket_def Let_def)
  have listed: "sshFxpReaddirPacket_respond (world sshFxInitPacket)
         (server_relative
            \<lparr>handleCount := 1,
             openFiles := [''1'' \<mapsto> File 3 ''/dev/null''],
             openDirs := [''1'' \<mapsto> \<lparr>name = ''/'', read = False\<rparr>]\<rparr>)
         (sshFxpReaddirPacket j ''1'') =
       (server_relative
          \<lparr>handleCount := 1,
           openFiles := [''1'' \<mapsto> File 3 ''/dev/null''],
           openDirs := [''1'' \<mapsto> \<lparr>name = ''/'', read = True\<rparr>]\<rparr>,
        [Sent (sshFxpNamePacket j
           [\<lparr>Name = ''p'', LongName = ''p'',
             NameAttr_Attrs = FileInfoAttrs
               \<lparr>fileInfo_name = ''p'', fileInfo_mode = ModeDir_0755, fileInfo_mtime = 0\<rparr>\<rparr>])],
        Return None)"
    by (simp add: sshFxpReaddirPacket_respond_def sshFxpReaddirPacket_respond_end_def
        getHandle_def getHandleDirInfo_def isUploadDirOrAncestor_def slice_from_def
        strings_HasPrefix_def world_def server_relative_def server_hook_def server_up_def
        sendPacket_def Let_def)
  from hook ancestor opened listed show ?thesis
    by (intro conjI)
qed

text \<open>The open with the packet ID 1 and the readdir with the packet ID 2.\<close>

theorem readdir_relative_upload_path_witness:
  "sshFxpReaddirPacket_respond (world sshFxInitPacket)
         (fst (sshFxpOpenPacket_respond (world sshFxInitPacket) server_relative
                 (sshFxpOpenPacket 1 ''/'' ssh_FXF_READ 0)))
         (sshFxpReaddirPacket 2 ''1'') =
       (server_relative
          \<lparr>handleCount := 1,
           openFiles := [''1'' \<mapsto> File 3 ''/dev/null''],
           openDirs := [''1'' \<mapsto> \<lparr>name = ''/'', read = True\<rparr>]\<rparr>,
        [Sent (sshFxpNamePacket 2
           [\<lparr>Name = ''p'', LongName = ''p'',
             NameAttr_Attrs = FileInfoAttrs
               \<lparr>fileInfo_name = ''p'', fileInfo_mode = ModeDir_0755, fileInfo_mtime = 0\<rparr>\<rparr>])],
        Return None)"
  using readdir_relative_upload_path [of 1 2] by simp

end
